theory Spec2Isabelle
  imports Main "HOL-Library.Word"
begin

section \<open>The edge-function handler of packages/node (edge-handler.ts)\<close>

text \<open>
  A shallow embedding of \<^verbatim>\<open>src/packages/node/src/edge-functions/edge-handler.ts\<close>.
  JavaScript strings are modelled as \<^typ>\<open>string\<close>, holding the text in its UTF-8 form, one
  character of the model for each byte: a character of the text below 128 is the character
  of the model with that code, any other character is the two to four bytes of its
  encoding. So a string is written to the wire byte for byte, and \<^verbatim>\<open>JSON.stringify\<close>, which
  escapes only characters below 128, works on it character by character. (A string with a
  lone surrogate has no such form and is not modelled.) Promises are modelled by the value
  they settle to: a rejection is
  \<open>Inl\<close> of the error, a fulfilment is \<open>Inr\<close> of the value. The collaborators that the file
  imports (the bundler, the sandbox runtime, \<^verbatim>\<open>fetch\<close>) are parameters: what each call
  returns or throws.
\<close>

subsection \<open>String helpers of the language: split, join, pop\<close>

text \<open>
  \<^verbatim>\<open>s.split(sep)\<close> for a one-character separator: the pieces between the separators,
  in order; a string without the separator is the single piece, the empty string too.
\<close>

fun js_split :: "char \<Rightarrow> string \<Rightarrow> string list" where
  "js_split sep [] = [[]]"
| "js_split sep (c # cs) =
     (if c = sep then [] # js_split sep cs
      else (case js_split sep cs of
              [] \<Rightarrow> [[c]]
            | p # ps \<Rightarrow> (c # p) # ps))"

text \<open>\<^verbatim>\<open>parts.join(sep)\<close>: the pieces with the separator between neighbours.\<close>

fun js_join :: "string \<Rightarrow> string list \<Rightarrow> string" where
  "js_join sep [] = []"
| "js_join sep [p] = p"
| "js_join sep (p # q # ps) = p @ sep @ js_join sep (q # ps)"

text \<open>\<^verbatim>\<open>parts.pop()\<close> removes the last element in place; on an empty array it does nothing.\<close>

definition js_pop :: "'a list \<Rightarrow> 'a list" where
  "js_pop parts = butlast parts"

subsection \<open>Route label: \<^verbatim>\<open>extractUrlPath\<close>\<close>

text \<open>
  \<^verbatim>\<open>
  function extractUrlPath(entrypointRelativePath: string) {
    const parts = entrypointRelativePath.split('.');
    if (parts.length === 1) {
      return entrypointRelativePath;
    }
    parts.pop();
    return parts.join('.');
  }
  \<close>
\<close>

definition extractUrlPath :: "string \<Rightarrow> string" where
  "extractUrlPath entrypointRelativePath =
     (let parts = js_split (CHR ''.'') entrypointRelativePath in
      if length parts = 1 then entrypointRelativePath
      else js_join ''.'' (js_pop parts))"

subsection \<open>Errors, console output and the calls to the collaborators\<close>

text \<open>
  A JavaScript \<^verbatim>\<open>Error\<close>: its message and its stack text. For an error made by
  \<^verbatim>\<open>new Error(msg)\<close> the stack starts with \<^verbatim>\<open>Error: msg\<close>; the frames the engine appends
  are left out, nothing in this file reads them.
\<close>

record js_error =
  message :: string
  stack :: string

definition new_Error :: "string \<Rightarrow> js_error" where
  "new_Error msg = \<lparr>message = msg, stack = ''Error: '' @ msg\<rparr>"

text \<open>
  The options object of \<^verbatim>\<open>esbuild.build\<close>, with the plugin list of type \<open>'p list\<close>. The
  options \<^verbatim>\<open>bundle\<close> and \<^verbatim>\<open>write\<close> are \<open>bundle_flag\<close> and \<open>write_flag\<close>: the two
  words are keywords of Isabelle.
\<close>

record 'p build_options =
  platform :: string
  target :: string
  sourcemap :: string
  legalComments :: string
  bundle_flag :: bool
  plugins :: "'p list"
  entryPoints :: "string list"
  write_flag :: bool
  format :: string

record output_file =
  file_text :: string

record build_result =
  outputFiles :: "output_file list option"

text \<open>The second argument of \<^verbatim>\<open>fetch\<close>.\<close>

record fetch_init =
  init_redirect :: string
  init_method :: string
  init_body :: string

text \<open>
  The response \<^verbatim>\<open>fetch\<close> resolves with: \<open>resp_headers\<close> is the header map of the
  response (names in order, each with its list of values, what \<^verbatim>\<open>headers.raw()\<close> returns)
  and \<open>resp_text\<close> is what awaiting \<^verbatim>\<open>response.text()\<close> settles to.
\<close>

record fetch_response =
  resp_status :: int
  resp_headers :: "(string \<times> string list) list"
  resp_text :: "js_error + string"

text \<open>The server \<^verbatim>\<open>runServer\<close> returns: the process reads its \<^verbatim>\<open>url\<close> and its \<^verbatim>\<open>close\<close>.\<close>

record server =
  server_url :: string

text \<open>
  What the process does that can be seen from outside, in order: lines written to the
  console and calls to the external collaborators.
\<close>

datatype ('w, 'p) event =
    ConsoleError string
  | ConsoleLog string
  | EsbuildBuild "'p build_options"
  | WasmGetContext 'w
  | NewEdgeRuntime string
  | RunServer
  | ExitHook server
  | Fetch string fetch_init

text \<open>
  How a (possibly asynchronous) computation ends: it returns a value, it throws (its
  promise rejects), or \<^verbatim>\<open>process.exit(code)\<close> ends the process.
\<close>

datatype 'a outcome = Returned 'a | Thrown js_error | Exited int

type_synonym ('w, 'p, 'a) proc = "('w, 'p) event list \<times> 'a outcome"

definition ret :: "'a \<Rightarrow> ('w, 'p, 'a) proc" where
  "ret x = ([], Returned x)"

definition throw :: "js_error \<Rightarrow> ('w, 'p, 'a) proc" where
  "throw e = ([], Thrown e)"

definition process_exit :: "int \<Rightarrow> ('w, 'p, 'a) proc" where
  "process_exit code = ([], Exited code)"

definition emit :: "('w, 'p) event \<Rightarrow> ('w, 'p, unit) proc" where
  "emit ev = ([ev], Returned ())"

text \<open>\<^verbatim>\<open>await p\<close> on a settled promise: the value, or the rejection thrown.\<close>

definition await :: "js_error + 'a \<Rightarrow> ('w, 'p, 'a) proc" where
  "await p = (case p of Inl e \<Rightarrow> throw e | Inr x \<Rightarrow> ret x)"

text \<open>Sequencing: the rest runs only when the first part returned.\<close>

definition bind :: "('w, 'p, 'a) proc \<Rightarrow> ('a \<Rightarrow> ('w, 'p, 'b) proc) \<Rightarrow> ('w, 'p, 'b) proc" where
  "bind m f =
     (case snd m of
        Returned x \<Rightarrow> (fst m @ fst (f x), snd (f x))
      | Thrown e \<Rightarrow> (fst m, Thrown e)
      | Exited code \<Rightarrow> (fst m, Exited code))"

text \<open>\<^verbatim>\<open>try { m } catch (error) { h }\<close>: the handler runs only when the body threw.\<close>

definition try_catch :: "('w, 'p, 'a) proc \<Rightarrow> (js_error \<Rightarrow> ('w, 'p, 'a) proc) \<Rightarrow> ('w, 'p, 'a) proc" where
  "try_catch m h =
     (case snd m of
        Thrown e \<Rightarrow> (fst m @ fst (h e), snd (h e))
      | Returned x \<Rightarrow> (fst m, Returned x)
      | Exited code \<Rightarrow> (fst m, Exited code))"

text \<open>
  Modelled from the spec: \<^verbatim>\<open>logError\<close> is imported from \<^verbatim>\<open>../utils\<close>, which is not among
  the sources. The specification says that the caught error is logged message-only, the
  stack trace being suppressed: one line on the error console, the message.
\<close>

definition logError :: "js_error \<Rightarrow> ('w, 'p, unit) proc" where
  "logError error = emit (ConsoleError (message error))"

subsection \<open>Module constants: the node version and the harness template\<close>

definition is_digit :: "char \<Rightarrow> bool" where
  "is_digit c = (c \<in> set ''0123456789'')"

text \<open>
  \<^verbatim>\<open>process.version.match(/^v(\d+)\.\d+/)?.[1]\<close>, read left to right as the regular
  expression is: the letter v at the start, the longest run of digits (the group), a dot
  and one more digit. Giving back digits of the run cannot help the match, since the
  character that would then have to be the dot is a digit. \<open>None\<close> is \<^verbatim>\<open>undefined\<close>.
\<close>

definition match_node_version :: "string \<Rightarrow> string option" where
  "match_node_version version =
     (case version of
        [] \<Rightarrow> None
      | c # cs \<Rightarrow>
          if c \<noteq> CHR ''v'' then None
          else
            (let major = takeWhile is_digit cs in
             if major = [] then None
             else
               (case dropWhile is_digit cs of
                  dot # d # _ \<Rightarrow> if dot = CHR ''.'' \<and> is_digit d then Some major else None
                | _ \<Rightarrow> None)))"

text \<open>
  The pattern in words: the string starts with v, one or more digits, a dot and one or
  more digits; anything may follow.
\<close>

definition matches_version_pattern :: "string \<Rightarrow> bool" where
  "matches_version_pattern version =
     (\<exists>major minor rest. version = ''v'' @ major @ ''.'' @ minor @ rest
        \<and> major \<noteq> [] \<and> list_all is_digit major \<and> minor \<noteq> [] \<and> list_all is_digit minor)"

record module_consts =
  NODE_VERSION_IDENTIFIER :: string
  edgeHandlerTemplate :: string

text \<open>A template literal prints \<^verbatim>\<open>undefined\<close> for an undefined value.\<close>

definition string_of_optional :: "string option \<Rightarrow> string" where
  "string_of_optional v = (case v of None \<Rightarrow> ''undefined'' | Some s \<Rightarrow> s)"

text \<open>\<^verbatim>\<open>!v\<close> for a value that is a string or undefined: true for undefined and for the empty string.\<close>

definition js_not :: "string option \<Rightarrow> bool" where
  "js_not v = (case v of None \<Rightarrow> True | Some s \<Rightarrow> s = [])"

text \<open>
  Loading the module (lines 13 to 23): the version check, then the template file is read;
  \<open>template_file\<close> is what \<^verbatim>\<open>readFileSync\<close> returns (the text of the file) or throws.
  The result is the error thrown while loading, or the constants of the module.
\<close>

definition load_module :: "string \<Rightarrow> js_error + string \<Rightarrow> js_error + module_consts" where
  "load_module process_version template_file =
     (let NODE_VERSION_MAJOR = match_node_version process_version;
          identifier = ''node'' @ string_of_optional NODE_VERSION_MAJOR
      in
        if js_not NODE_VERSION_MAJOR then
          Inl (new_Error (''Unable to determine current node version: process.version='' @ process_version))
        else
          (case template_file of
             Inl e \<Rightarrow> Inl e
           | Inr template \<Rightarrow>
               Inr \<lparr>NODE_VERSION_IDENTIFIER = identifier, edgeHandlerTemplate = template\<rparr>))"

subsection \<open>The objects of the host and of the sandbox context\<close>

text \<open>
  Objects live in a store and are passed by reference: a value is undefined, a string or
  the address of an object; an object maps property names to values. The store is needed
  for \<^verbatim>\<open>process: { env: process.env }\<close>, which hands an object of the host to the sandbox.
\<close>

type_synonym addr = nat

datatype jsval = VUndefined | VString string | VObject addr

record heap =
  objects :: "addr \<Rightarrow> (string \<Rightarrow> jsval option) option"
  next_addr :: addr

definition alloc :: "heap \<Rightarrow> (string \<Rightarrow> jsval option) \<Rightarrow> heap \<times> addr" where
  "alloc h props =
     (h\<lparr>objects := (objects h)(next_addr h \<mapsto> props), next_addr := Suc (next_addr h)\<rparr>,
      next_addr h)"

definition get_prop :: "heap \<Rightarrow> addr \<Rightarrow> string \<Rightarrow> jsval" where
  "get_prop h a k =
     (case objects h a of
        None \<Rightarrow> VUndefined
      | Some props \<Rightarrow> (case props k of None \<Rightarrow> VUndefined | Some v \<Rightarrow> v))"

definition set_prop :: "heap \<Rightarrow> addr \<Rightarrow> string \<Rightarrow> jsval \<Rightarrow> heap" where
  "set_prop h a k v =
     (case objects h a of
        None \<Rightarrow> h
      | Some props \<Rightarrow> h\<lparr>objects := (objects h)(a \<mapsto> props(k \<mapsto> v))\<rparr>)"

text \<open>\<^verbatim>\<open>Object.assign(target, source)\<close>: the properties of the source are set on the target, in order.\<close>

fun object_assign :: "heap \<Rightarrow> addr \<Rightarrow> (string \<times> jsval) list \<Rightarrow> heap" where
  "object_assign h a [] = h"
| "object_assign h a ((k, v) # kvs) = object_assign (set_prop h a k v) a kvs"

text \<open>
  The \<^verbatim>\<open>extend\<close> callback of lines 103 to 120 (\<open>extend\<close> is a name of the record
  package), for the host's environment object at \<open>process_env\<close> and the resolved bindings:
  \<^verbatim>\<open>
  extend: (context: EdgeContext) => {
    Object.assign(context, {
      module: {},
      process: { env: process.env },
      ...wasmBindings,
    });
    return context;
  }
  \<close>
\<close>

definition extend_context :: "addr \<Rightarrow> (string \<times> jsval) list \<Rightarrow> heap \<Rightarrow> addr \<Rightarrow> heap \<times> addr" where
  "extend_context process_env wasmBindings h context =
     (let (h1, module_obj) = alloc h Map.empty;
          (h2, process_obj) = alloc h1 [''env'' \<mapsto> VObject process_env]
      in (object_assign h2 context
            ([(''module'', VObject module_obj), (''process'', VObject process_obj)] @ wasmBindings),
          context))"

text \<open>
  Code of the host and code inside the sandbox reading and writing the environment:
  the host through its own \<^verbatim>\<open>process.env\<close>, the sandbox through the global \<^verbatim>\<open>process\<close> of
  its context. Reading a property of a value that is not an object throws; it is \<open>None\<close>.
\<close>

definition host_getenv :: "heap \<Rightarrow> addr \<Rightarrow> string \<Rightarrow> jsval" where
  "host_getenv h process_env name = get_prop h process_env name"

definition host_setenv :: "heap \<Rightarrow> addr \<Rightarrow> string \<Rightarrow> string \<Rightarrow> heap" where
  "host_setenv h process_env name v = set_prop h process_env name (VString v)"

definition sandbox_env_object :: "heap \<Rightarrow> addr \<Rightarrow> addr option" where
  "sandbox_env_object h context =
     (case get_prop h context ''process'' of
        VObject p \<Rightarrow> (case get_prop h p ''env'' of VObject e \<Rightarrow> Some e | _ \<Rightarrow> None)
      | _ \<Rightarrow> None)"

definition sandbox_getenv :: "heap \<Rightarrow> addr \<Rightarrow> string \<Rightarrow> jsval option" where
  "sandbox_getenv h context name =
     (case sandbox_env_object h context of
        None \<Rightarrow> None
      | Some e \<Rightarrow> Some (get_prop h e name))"

definition sandbox_setenv :: "heap \<Rightarrow> addr \<Rightarrow> string \<Rightarrow> string \<Rightarrow> heap option" where
  "sandbox_setenv h context name v =
     (case sandbox_env_object h context of
        None \<Rightarrow> None
      | Some e \<Rightarrow> Some (set_prop h e name (VString v)))"

subsection \<open>The collaborators\<close>

text \<open>The options of \<^verbatim>\<open>new EdgeRuntime\<close>.\<close>

record runtime_options =
  initialCode :: string
  extend_option :: "heap \<Rightarrow> addr \<Rightarrow> heap \<times> addr"

text \<open>
  The collaborators of the module, each given by what its call returns or throws:
  the asset plugin, the bundler, the asset set's \<^verbatim>\<open>getContext\<close>, the sandbox runtime and
  its server, and the address of the host's \<^verbatim>\<open>process.env\<close> object.

  Modelled from the spec: \<^verbatim>\<open>createEdgeWasmPlugin\<close> is imported from \<^verbatim>\<open>./edge-wasm-plugin\<close>,
  which is not among the sources. The specification says that it creates a fresh asset
  plugin for the compilation; it is the pair of the asset set and the plugin, as line 41
  reads it, and creating it does not fail.
\<close>

record ('w, 'p, 'r) host =
  createEdgeWasmPlugin :: "'w \<times> 'p"
  esbuild_build :: "'p build_options \<Rightarrow> js_error + build_result"
  getContext :: "'w \<Rightarrow> js_error + (string \<times> jsval) list"
  new_EdgeRuntime :: "runtime_options \<Rightarrow> js_error + 'r"
  runServer :: "'r \<Rightarrow> js_error + server"
  process_env :: addr

subsection \<open>Compiling: \<^verbatim>\<open>compileUserCode\<close>\<close>

definition string_of_bool :: "bool \<Rightarrow> string" where
  "string_of_bool b = (if b then ''true'' else ''false'')"

text \<open>\<^verbatim>\<open>result.outputFiles?.[0]\<close>: undefined without output files and for an empty list.\<close>

definition first_output_file :: "build_result \<Rightarrow> output_file option" where
  "first_output_file result =
     (case outputFiles result of
        None \<Rightarrow> None
      | Some [] \<Rightarrow> None
      | Some (f # _) \<Rightarrow> Some f)"

text \<open>The template literal of lines 66 to 79, piece by piece.\<close>

definition strict_mode_prologue :: string where
  "strict_mode_prologue =
     ''\<newline>      // strict mode\<newline>      '' @ [CHR 0x22] @ ''use strict'' @ [CHR 0x22]
     @ '';var regeneratorRuntime;\<newline>\<newline>      // user code\<newline>      ''"

definition request_metadata :: "bool \<Rightarrow> string \<Rightarrow> string" where
  "request_metadata isMiddleware entrypointRelativePath =
     '';\<newline>\<newline>      // request metadata\<newline>      const IS_MIDDLEWARE = ''
     @ string_of_bool isMiddleware
     @ '';\<newline>      const ENTRYPOINT_LABEL = ''
     @ [CHR 0x27] @ entrypointRelativePath @ [CHR 0x27]
     @ '';\<newline>\<newline>      // edge handler\<newline>      ''"

definition wrap_user_code :: "module_consts \<Rightarrow> string \<Rightarrow> bool \<Rightarrow> string \<Rightarrow> string" where
  "wrap_user_code m bundle_text isMiddleware entrypointRelativePath =
     strict_mode_prologue @ bundle_text
     @ request_metadata isMiddleware entrypointRelativePath
     @ edgeHandlerTemplate m @ ''\<newline>    ''"

record 'w compiled =
  userCode :: string
  wasmAssets :: 'w

text \<open>The options object of lines 43 to 57.\<close>

definition esbuild_options :: "module_consts \<Rightarrow> 'p \<Rightarrow> string \<Rightarrow> 'p build_options" where
  "esbuild_options m edgeWasmPlugin entrypointFullPath =
     \<lparr>platform = ''browser'',
      target = NODE_VERSION_IDENTIFIER m,
      sourcemap = ''inline'',
      legalComments = ''none'',
      bundle_flag = True,
      plugins = [edgeWasmPlugin],
      entryPoints = [entrypointFullPath],
      write_flag = False,
      format = ''cjs''\<rparr>"

definition compileUserCode ::
  "module_consts \<Rightarrow> ('w, 'p, 'r) host \<Rightarrow> string \<Rightarrow> string \<Rightarrow> bool
     \<Rightarrow> ('w, 'p, 'w compiled option) proc" where
  "compileUserCode m host entrypointFullPath entrypointRelativePath isMiddleware =
     (let (assets, edgeWasmPlugin) = createEdgeWasmPlugin host;
          options = esbuild_options m edgeWasmPlugin entrypointFullPath
      in
        try_catch
          (bind (emit (EsbuildBuild options)) (\<lambda>_.
           bind (await (esbuild_build host options)) (\<lambda>result.
             (case first_output_file result of
                None \<Rightarrow>
                  throw (new_Error (''Compilation of '' @ entrypointRelativePath
                                      @ '' produced no output files.''))
              | Some compiledFile \<Rightarrow>
                  ret (Some \<lparr>userCode = wrap_user_code m (file_text compiledFile)
                                           isMiddleware entrypointRelativePath,
                             wasmAssets = assets\<rparr>)))))
          (\<lambda>error.
             bind (emit (ConsoleError ''Failed to compile user code for edge runtime.'')) (\<lambda>_.
             bind (logError error) (\<lambda>_.
             ret None))))"

subsection \<open>Starting the sandbox: \<^verbatim>\<open>createEdgeRuntime\<close>\<close>

definition createEdgeRuntime ::
  "('w, 'p, 'r) host \<Rightarrow> 'w compiled option \<Rightarrow> ('w, 'p, server option) proc" where
  "createEdgeRuntime host params =
     try_catch
       (case params of
          None \<Rightarrow> ret None
        | Some ps \<Rightarrow>
            bind (emit (WasmGetContext (wasmAssets ps))) (\<lambda>_.
            bind (await (getContext host (wasmAssets ps))) (\<lambda>wasmBindings.
            bind (emit (NewEdgeRuntime (userCode ps))) (\<lambda>_.
            bind (await (new_EdgeRuntime host
                           \<lparr>initialCode = userCode ps,
                            extend_option = extend_context (process_env host) wasmBindings\<rparr>)) (\<lambda>edgeRuntime.
            bind (emit RunServer) (\<lambda>_.
            bind (await (runServer host edgeRuntime)) (\<lambda>srv.
            bind (emit (ExitHook srv)) (\<lambda>_.
            ret (Some srv)))))))))
       (\<lambda>error.
          bind (emit (ConsoleError ''Failed to instantiate edge runtime.'')) (\<lambda>_.
          bind (logError error) (\<lambda>_.
          ret None)))"

subsection \<open>Serializing the request: \<^verbatim>\<open>serializeRequest\<close>\<close>

type_synonym byte = "8 word"

text \<open>
  \<^verbatim>\<open>bodyBuffer.toString('base64')\<close>: three bytes give four characters of the alphabet
  \<^verbatim>\<open>A-Z a-z 0-9 + /\<close>, a last group of one or two bytes is padded with \<^verbatim>\<open>=\<close>.
\<close>

definition b64_char :: "nat \<Rightarrow> char" where
  "b64_char n =
     (if n < 26 then char_of (65 + n)
      else if n < 52 then char_of (71 + n)
      else if n < 62 then char_of (n - 4)
      else if n = 62 then CHR ''+''
      else CHR ''/'')"

fun base64 :: "byte list \<Rightarrow> string" where
  "base64 [] = []"
| "base64 [a] =
     [b64_char (unat a div 4), b64_char (unat a mod 4 * 16), CHR ''='', CHR ''='']"
| "base64 [a, b] =
     [b64_char (unat a div 4), b64_char (unat a mod 4 * 16 + unat b div 16),
      b64_char (unat b mod 16 * 4), CHR ''='']"
| "base64 (a # b # c # bytes) =
     [b64_char (unat a div 4), b64_char (unat a mod 4 * 16 + unat b div 16),
      b64_char (unat b mod 16 * 4 + unat c div 64), b64_char (unat c mod 64)]
     @ base64 bytes"

text \<open>
  JSON values as \<^verbatim>\<open>JSON.stringify\<close> sees the request object: strings, arrays and objects
  (the properties in enumeration order).
\<close>

datatype json = JString string | JArray "json list" | JObject "(string \<times> json) list"

definition hex_digit :: "nat \<Rightarrow> char" where
  "hex_digit n = (if n < 10 then char_of (48 + n) else char_of (87 + n))"

text \<open>
  \<^verbatim>\<open>QuoteJSONString\<close>: backspace, tab, line feed, form feed, carriage return, the double
  quote and the backslash get their two-character escapes, the other characters below
  space are written \<^verbatim>\<open>\u00XX\<close> with lower-case hex digits, every other character is
  itself.
\<close>

definition json_escape_char :: "char \<Rightarrow> string" where
  "json_escape_char c =
     (let n = (of_char c :: nat) in
      if n = 8 then [CHR 0x5C, CHR ''b'']
      else if n = 9 then [CHR 0x5C, CHR ''t'']
      else if n = 10 then [CHR 0x5C, CHR ''n'']
      else if n = 12 then [CHR 0x5C, CHR ''f'']
      else if n = 13 then [CHR 0x5C, CHR ''r'']
      else if n = 34 then [CHR 0x5C, CHR 0x22]
      else if n = 92 then [CHR 0x5C, CHR 0x5C]
      else if n < 32 then
        [CHR 0x5C, CHR ''u'', CHR ''0'', CHR ''0'', hex_digit (n div 16), hex_digit (n mod 16)]
      else [c])"

definition json_quote :: "string \<Rightarrow> string" where
  "json_quote s = [CHR 0x22] @ concat (map json_escape_char s) @ [CHR 0x22]"

fun JSON_stringify :: "json \<Rightarrow> string" where
  "JSON_stringify (JString s) = json_quote s"
| "JSON_stringify (JArray vs) = ''['' @ js_join '','' (map JSON_stringify vs) @ '']''"
| "JSON_stringify (JObject kvs) =
     ''{'' @ js_join '','' (map (\<lambda>(k, v). json_quote k @ '':'' @ JSON_stringify v) kvs) @ ''}''"

text \<open>
  An object literal whose property values may be undefined, as \<^verbatim>\<open>JSON.stringify\<close> reads
  it: a property whose value is undefined is left out.
\<close>

fun defined_props :: "(string \<times> json option) list \<Rightarrow> (string \<times> json) list" where
  "defined_props [] = []"
| "defined_props ((k, None) # kvs) = defined_props kvs"
| "defined_props ((k, Some v) # kvs) = (k, v) # defined_props kvs"

text \<open>
  The request as the handler reads it (\<^verbatim>\<open>IncomingMessage\<close>): \<^verbatim>\<open>url\<close> and \<^verbatim>\<open>method\<close> may be
  undefined, the headers are the properties of the \<^verbatim>\<open>headers\<close> object in enumeration
  order, each with one value or a list of values, and \<open>msg_body\<close> is what draining the
  stream with \<^verbatim>\<open>streamToBuffer\<close> settles to.
\<close>

datatype header_value = Single string | Multiple "string list"

record incoming_message =
  msg_url :: "string option"
  msg_method :: "string option"
  msg_headers :: "(string \<times> header_value) list"
  msg_body :: "js_error + byte list"

fun json_of_header_value :: "header_value \<Rightarrow> json" where
  "json_of_header_value (Single v) = JString v"
| "json_of_header_value (Multiple vs) = JArray (map JString vs)"

definition json_of_headers :: "(string \<times> header_value) list \<Rightarrow> json" where
  "json_of_headers hs = JObject (map (\<lambda>(k, v). (k, json_of_header_value v)) hs)"

text \<open>The object that \<^verbatim>\<open>serializeRequest\<close> hands to \<^verbatim>\<open>JSON.stringify\<close>, for the encoded body.\<close>

definition request_object :: "incoming_message \<Rightarrow> string \<Rightarrow> json" where
  "request_object msg body =
     JObject (defined_props
       [(''url'', map_option JString (msg_url msg)),
        (''method'', map_option JString (msg_method msg)),
        (''headers'', Some (json_of_headers (msg_headers msg))),
        (''body'', Some (JString body))])"

definition serializeRequest :: "incoming_message \<Rightarrow> ('w, 'p, string) proc" where
  "serializeRequest msg =
     bind (await (msg_body msg)) (\<lambda>bodyBuffer.
     (let body = base64 bodyBuffer in
      ret (JSON_stringify (request_object msg body))))"

subsection \<open>Handling a request: \<^verbatim>\<open>createEdgeEventHandler\<close>\<close>

text \<open>The response returned to the caller (\<^verbatim>\<open>VercelProxyResponse\<close>).\<close>

record proxy_response =
  statusCode :: int
  headers :: "(string \<times> string list) list"
  body :: string
  encoding :: string

definition to_lower :: "char \<Rightarrow> char" where
  "to_lower c =
     (let n = (of_char c :: nat) in if 65 \<le> n \<and> n \<le> 90 then char_of (n + 32) else c)"

text \<open>
  \<^verbatim>\<open>response.headers.get(name)\<close>: the values of the first header whose name is the given
  one, letter case apart, joined with a comma and a space; \<open>None\<close> (\<^verbatim>\<open>null\<close>) without one.
\<close>

definition headers_get :: "(string \<times> string list) list \<Rightarrow> string \<Rightarrow> string option" where
  "headers_get hs name =
     (case find (\<lambda>(k, vs). map to_lower k = map to_lower name) hs of
        None \<Rightarrow> None
      | Some (k, vs) \<Rightarrow> Some (js_join '', '' vs))"

text \<open>
  The function that \<^verbatim>\<open>createEdgeEventHandler\<close> returns (lines 148 to 186), for the
  relative path and the server it closes over. \<open>fetch\<close> is what the call of
  \<^verbatim>\<open>fetch(url, init)\<close> settles to at the time of this request; \<open>fetch_options\<close> is the
  object of lines 156 to 160.
\<close>

definition fetch_options :: "string \<Rightarrow> fetch_init" where
  "fetch_options payload =
     \<lparr>init_redirect = ''manual'', init_method = ''post'', init_body = payload\<rparr>"

definition handle ::
  "string \<Rightarrow> server option \<Rightarrow> (string \<Rightarrow> fetch_init \<Rightarrow> js_error + fetch_response)
     \<Rightarrow> incoming_message \<Rightarrow> ('w, 'p, proxy_response) proc" where
  "handle entrypointRelativePath server_opt fetch request =
     (case server_opt of
        None \<Rightarrow> process_exit 1
      | Some srv \<Rightarrow>
          bind (serializeRequest request) (\<lambda>payload.
          bind (emit (Fetch (server_url srv) (fetch_options payload))) (\<lambda>_.
          bind (await (fetch (server_url srv) (fetch_options payload))) (\<lambda>response.
          bind (await (resp_text response)) (\<lambda>body_text.
          (let isUserError =
                 (headers_get (resp_headers response) ''x-vercel-failed'' = Some ''edge-wrapper'')
           in
             if isUserError \<and> resp_status response \<ge> 500 then
               (let fakeStackTrace = ''    at ('' @ entrypointRelativePath @ '')'';
                    urlPath = extractUrlPath entrypointRelativePath
                in
                  bind (emit (ConsoleLog (''Error from API Route '' @ urlPath @ '': '' @ body_text
                                            @ ''\<newline>'' @ fakeStackTrace))) (\<lambda>_.
                  process_exit 1))
             else
               ret \<lparr>statusCode = resp_status response,
                    headers = resp_headers response,
                    body = body_text,
                    encoding = ''utf8''\<rparr>))))))"

definition createEdgeEventHandler ::
  "module_consts \<Rightarrow> ('w, 'p, 'r) host \<Rightarrow> string \<Rightarrow> string \<Rightarrow> bool
     \<Rightarrow> ('w, 'p, (string \<Rightarrow> fetch_init \<Rightarrow> js_error + fetch_response)
                    \<Rightarrow> incoming_message \<Rightarrow> ('w, 'p, proxy_response) proc) proc" where
  "createEdgeEventHandler m host entrypointFullPath entrypointRelativePath isMiddleware =
     bind (compileUserCode m host entrypointFullPath entrypointRelativePath isMiddleware) (\<lambda>compiled_code.
     bind (createEdgeRuntime host compiled_code) (\<lambda>srv.
     ret (handle entrypointRelativePath srv)))"

text \<open>
  A process that loads the module and then creates a handler: nothing of the module can be
  called when loading threw.
\<close>

definition load_and_create ::
  "string \<Rightarrow> js_error + string \<Rightarrow> ('w, 'p, 'r) host \<Rightarrow> string \<Rightarrow> string \<Rightarrow> bool
     \<Rightarrow> ('w, 'p, (string \<Rightarrow> fetch_init \<Rightarrow> js_error + fetch_response)
                    \<Rightarrow> incoming_message \<Rightarrow> ('w, 'p, proxy_response) proc) proc" where
  "load_and_create process_version template_file host entrypointFullPath entrypointRelativePath isMiddleware =
     bind (await (load_module process_version template_file)) (\<lambda>m.
     createEdgeEventHandler m host entrypointFullPath entrypointRelativePath isMiddleware)"

subsection \<open>The fetch library with \<^verbatim>\<open>redirect: 'manual'\<close>\<close>




subsection \<open>Reading the payload back: the echo sandbox\<close>

text \<open>
  The inverse of the base64 alphabet, and the decoding of a padded base64 text: \<open>None\<close>
  for a text that is not one.
\<close>

definition b64_value :: "char \<Rightarrow> nat option" where
  "b64_value c =
     (let n = (of_char c :: nat) in
      if 65 \<le> n \<and> n \<le> 90 then Some (n - 65)
      else if 97 \<le> n \<and> n \<le> 122 then Some (n - 71)
      else if 48 \<le> n \<and> n \<le> 57 then Some (n + 4)
      else if c = CHR ''+'' then Some 62
      else if c = CHR ''/'' then Some 63
      else None)"

fun base64_decode :: "string \<Rightarrow> byte list option" where
  "base64_decode [] = Some []"
| "base64_decode (c1 # c2 # c3 # c4 # cs) =
     (case (b64_value c1, b64_value c2) of
        (Some s1, Some s2) \<Rightarrow>
          if c3 = CHR ''='' \<and> c4 = CHR ''='' \<and> cs = [] then
            Some [of_nat (s1 * 4 + s2 div 16)]
          else
            (case b64_value c3 of
               None \<Rightarrow> None
             | Some s3 \<Rightarrow>
                 if c4 = CHR ''='' \<and> cs = [] then
                   Some [of_nat (s1 * 4 + s2 div 16), of_nat (s2 mod 16 * 16 + s3 div 4)]
                 else
                   (case b64_value c4 of
                      None \<Rightarrow> None
                    | Some s4 \<Rightarrow>
                        (case base64_decode cs of
                           None \<Rightarrow> None
                         | Some bytes \<Rightarrow>
                             Some (of_nat (s1 * 4 + s2 div 16)
                                   # of_nat (s2 mod 16 * 16 + s3 div 4)
                                   # of_nat (s3 mod 4 * 64 + s4) # bytes))))
      | _ \<Rightarrow> None)"
| "base64_decode _ = None"

text \<open>
  A parser for the JSON texts that \<^verbatim>\<open>serializeRequest\<close> makes: strings with their escapes,
  arrays and objects, without white space. \<open>parse_chars\<close> reads a string after its opening
  quote up to the closing one; of the escapes \<^verbatim>\<open>\uXXXX\<close> it reads those of a character
  below 128 (\<^verbatim>\<open>JSON.stringify\<close> writes no other). The parser of values counts its calls
  down from the length of the text, which bounds them; \<open>None\<close> is a syntax error or an
  escape that is not read.
\<close>

definition hex_value :: "char \<Rightarrow> nat option" where
  "hex_value c =
     (let n = (of_char c :: nat) in
      if 48 \<le> n \<and> n \<le> 57 then Some (n - 48)
      else if 97 \<le> n \<and> n \<le> 102 then Some (n - 87)
      else if 65 \<le> n \<and> n \<le> 70 then Some (n - 55)
      else None)"

definition json_unescape :: "char \<Rightarrow> char option" where
  "json_unescape e =
     (if e = CHR ''b'' then Some (CHR 0x08)
      else if e = CHR ''t'' then Some (CHR 0x09)
      else if e = CHR ''n'' then Some (CHR 0x0A)
      else if e = CHR ''f'' then Some (CHR 0x0C)
      else if e = CHR ''r'' then Some (CHR 0x0D)
      else if e = CHR 0x22 then Some (CHR 0x22)
      else if e = CHR 0x5C then Some (CHR 0x5C)
      else if e = CHR ''/'' then Some (CHR ''/'')
      else None)"

definition hex4_value :: "char \<Rightarrow> char \<Rightarrow> char \<Rightarrow> char \<Rightarrow> nat option" where
  "hex4_value a b c d =
     (case (hex_value a, hex_value b, hex_value c, hex_value d) of
        (Some x, Some y, Some z, Some w) \<Rightarrow> Some (((x * 16 + y) * 16 + z) * 16 + w)
      | _ \<Rightarrow> None)"

fun parse_chars :: "string \<Rightarrow> (string \<times> string) option" where
  "parse_chars [] = None"
| "parse_chars (c # cs) =
     (if c = CHR 0x22 then Some ([], cs)
      else if c = CHR 0x5C then
        (case cs of
           [] \<Rightarrow> None
         | e # cs' \<Rightarrow>
             if e = CHR ''u'' then
               (case cs' of
                  a # b # x # d # cs'' \<Rightarrow>
                    (case hex4_value a b x d of
                       None \<Rightarrow> None
                     | Some n \<Rightarrow>
                         if n < 128 then
                           (case parse_chars cs'' of
                              None \<Rightarrow> None
                            | Some (s, rest) \<Rightarrow> Some (char_of n # s, rest))
                         else None)
                | _ \<Rightarrow> None)
             else
               (case json_unescape e of
                  None \<Rightarrow> None
                | Some ch \<Rightarrow>
                    (case parse_chars cs' of
                       None \<Rightarrow> None
                     | Some (s, rest) \<Rightarrow> Some (ch # s, rest))))
      else if (of_char c :: nat) < 32 then None
      else
        (case parse_chars cs of
           None \<Rightarrow> None
         | Some (s, rest) \<Rightarrow> Some (c # s, rest)))"

fun parse_value :: "nat \<Rightarrow> string \<Rightarrow> (json \<times> string) option"
  and parse_elements :: "nat \<Rightarrow> string \<Rightarrow> (json list \<times> string) option"
  and parse_members :: "nat \<Rightarrow> string \<Rightarrow> ((string \<times> json) list \<times> string) option"
where
  "parse_value 0 s = None"
| "parse_value (Suc n) s =
     (case s of
        [] \<Rightarrow> None
      | c # r \<Rightarrow>
          if c = CHR 0x22 then
            (case parse_chars r of
               None \<Rightarrow> None
             | Some (str, rest) \<Rightarrow> Some (JString str, rest))
          else if c = CHR ''['' then
            (case r of
               [] \<Rightarrow> None
             | d # r' \<Rightarrow>
                 if d = CHR '']'' then Some (JArray [], r')
                 else
                   (case parse_elements n r of
                      None \<Rightarrow> None
                    | Some (vs, rest) \<Rightarrow> Some (JArray vs, rest)))
          else if c = CHR ''{'' then
            (case r of
               [] \<Rightarrow> None
             | d # r' \<Rightarrow>
                 if d = CHR ''}'' then Some (JObject [], r')
                 else
                   (case parse_members n r of
                      None \<Rightarrow> None
                    | Some (kvs, rest) \<Rightarrow> Some (JObject kvs, rest)))
          else None)"
| "parse_elements 0 s = None"
| "parse_elements (Suc n) s =
     (case parse_value n s of
        None \<Rightarrow> None
      | Some (v, r) \<Rightarrow>
          (case r of
             [] \<Rightarrow> None
           | d # r' \<Rightarrow>
               if d = CHR '']'' then Some ([v], r')
               else if d = CHR '','' then
                 (case parse_elements n r' of
                    None \<Rightarrow> None
                  | Some (vs, rest) \<Rightarrow> Some (v # vs, rest))
               else None))"
| "parse_members 0 s = None"
| "parse_members (Suc n) s =
     (case s of
        [] \<Rightarrow> None
      | q # s' \<Rightarrow>
          if q \<noteq> CHR 0x22 then None
          else
            (case parse_chars s' of
               None \<Rightarrow> None
             | Some (k, r0) \<Rightarrow>
                 (case r0 of
                    [] \<Rightarrow> None
                  | colon # r1 \<Rightarrow>
                      if colon \<noteq> CHR '':'' then None
                      else
                        (case parse_value n r1 of
                           None \<Rightarrow> None
                         | Some (v, r) \<Rightarrow>
                             (case r of
                                [] \<Rightarrow> None
                              | d # r' \<Rightarrow>
                                  if d = CHR ''}'' then Some ([(k, v)], r')
                                  else if d = CHR '','' then
                                    (case parse_members n r' of
                                       None \<Rightarrow> None
                                     | Some (kvs, rest) \<Rightarrow> Some ((k, v) # kvs, rest))
                                  else None)))))"

definition JSON_parse :: "string \<Rightarrow> json option" where
  "JSON_parse s =
     (case parse_value (length s) s of
        Some (v, []) \<Rightarrow> Some v
      | _ \<Rightarrow> None)"

text \<open>The property \<open>name\<close> of the object that a payload is the JSON text of.\<close>

definition json_field :: "string \<Rightarrow> string \<Rightarrow> json option" where
  "json_field payload name =
     (case JSON_parse payload of
        Some (JObject members) \<Rightarrow> map_of members name
      | _ \<Rightarrow> None)"

text \<open>
  Reading bytes as UTF-8 text, which is what \<^verbatim>\<open>response.text()\<close> does with the bytes of a
  response body. This is the UTF-8 decoder of the Encoding standard: \<open>needed\<close> is the number
  of continuation bytes still to come, \<open>lower\<close> and \<open>upper\<close> bound the next one, \<open>seen\<close> are
  the bytes of the sequence read so far. A well-formed sequence is one character of the text
  (in the model: its bytes); a byte that can start no sequence, and a sequence cut short
  by a byte out of bounds or by the end of the input, is the replacement character U+FFFD
  (in the model: the three bytes \<^verbatim>\<open>EF BF BD\<close>), and a byte that cut a sequence short is
  read again as the start of the next one. The bounds refuse overlong forms, surrogates
  and code points above U+10FFFF. A byte order mark at the start is kept, as
  \<^verbatim>\<open>Buffer.toString\<close> keeps it.
\<close>

definition replacement_character :: string where
  "replacement_character = [CHR 0xEF, CHR 0xBF, CHR 0xBD]"

function utf8_decode :: "nat \<Rightarrow> nat \<Rightarrow> nat \<Rightarrow> byte list \<Rightarrow> byte list \<Rightarrow> string" where
  "utf8_decode needed lower upper seen [] =
     (if needed = 0 then [] else replacement_character)"
| "utf8_decode needed lower upper seen (b # bs) =
     (if needed = 0 then
        (if unat b \<le> 0x7F then char_of (unat b) # utf8_decode 0 0x80 0xBF [] bs
         else if 0xC2 \<le> unat b \<and> unat b \<le> 0xDF then utf8_decode 1 0x80 0xBF [b] bs
         else if 0xE0 \<le> unat b \<and> unat b \<le> 0xEF then
           utf8_decode 2 (if unat b = 0xE0 then 0xA0 else 0x80)
                         (if unat b = 0xED then 0x9F else 0xBF) [b] bs
         else if 0xF0 \<le> unat b \<and> unat b \<le> 0xF4 then
           utf8_decode 3 (if unat b = 0xF0 then 0x90 else 0x80)
                         (if unat b = 0xF4 then 0x8F else 0xBF) [b] bs
         else replacement_character @ utf8_decode 0 0x80 0xBF [] bs)
      else if unat b < lower \<or> upper < unat b then
        replacement_character @ utf8_decode 0 0x80 0xBF [] (b # bs)
      else if needed = 1 then
        map (\<lambda>x. char_of (unat x)) (seen @ [b]) @ utf8_decode 0 0x80 0xBF [] bs
      else utf8_decode (needed - 1) 0x80 0xBF (seen @ [b]) bs)"
  by pat_completeness auto
termination
  by (relation "measure (\<lambda>(needed, lower, upper, seen, bs).
                  2 * length bs + (if needed = 0 then 0 else 1))") auto

definition utf8_text :: "byte list \<Rightarrow> string" where
  "utf8_text bytes = utf8_decode 0 0x80 0xBF [] bytes"

text \<open>
  The UTF-8 encoding of a code point, and the code points that have one (the Unicode
  scalar values): what the decoder is measured against.
\<close>

definition is_scalar_value :: "nat \<Rightarrow> bool" where
  "is_scalar_value cp = (cp < 0x110000 \<and> \<not> (0xD800 \<le> cp \<and> cp \<le> 0xDFFF))"

definition utf8_encode :: "nat \<Rightarrow> byte list" where
  "utf8_encode cp =
     (if cp < 0x80 then [of_nat cp]
      else if cp < 0x800 then [of_nat (0xC0 + cp div 64), of_nat (0x80 + cp mod 64)]
      else if cp < 0x10000 then
        [of_nat (0xE0 + cp div 4096), of_nat (0x80 + cp div 64 mod 64), of_nat (0x80 + cp mod 64)]
      else
        [of_nat (0xF0 + cp div 262144), of_nat (0x80 + cp div 4096 mod 64),
         of_nat (0x80 + cp div 64 mod 64), of_nat (0x80 + cp mod 64)])"

text \<open>The text with the given code points, in the form in which the model holds a string.\<close>

definition text_of_code_points :: "nat list \<Rightarrow> string" where
  "text_of_code_points cps = map (\<lambda>b. char_of (unat b)) (concat (map utf8_encode cps))"

text \<open>
  Modelled from the spec: the sandbox of the round-trip property is not among the sources;
  in the words of the specification it echoes the decoded body back as the response body
  with status 200. It reads the \<^verbatim>\<open>body\<close> property of the payload, decodes it from base64
  and answers with those bytes, which \<^verbatim>\<open>response.text()\<close> reads as UTF-8 text;
  \<open>response_headers\<close> are the headers it sends.
\<close>

definition echo_sandbox ::
  "(string \<times> string list) list \<Rightarrow> string \<Rightarrow> fetch_init \<Rightarrow> js_error + fetch_response" where
  "echo_sandbox response_headers url init =
     (case json_field (init_body init) ''body'' of
        Some (JString encoded) \<Rightarrow>
          (case base64_decode encoded of
             Some bytes \<Rightarrow>
               Inr \<lparr>resp_status = 200, resp_headers = response_headers,
                    resp_text = Inr (utf8_text bytes)\<rparr>
           | None \<Rightarrow> Inl (new_Error ''The body is not base64''))
      | _ \<Rightarrow> Inl (new_Error ''The payload has no body''))"

subsection \<open>Reading the trace\<close>

text \<open>The calls of the bundler and of \<^verbatim>\<open>fetch\<close> in a trace, in order.\<close>

fun esbuild_calls :: "('w, 'p) event list \<Rightarrow> 'p build_options list" where
  "esbuild_calls [] = []"
| "esbuild_calls (EsbuildBuild options # evs) = options # esbuild_calls evs"
| "esbuild_calls (_ # evs) = esbuild_calls evs"


subsection \<open>Reading the script\<close>

text \<open>
  The value that a script declares for \<^verbatim>\<open>ENTRYPOINT_LABEL\<close>: the text after the first
  \<^verbatim>\<open>const ENTRYPOINT_LABEL = \<close> is read as a string literal between single quotes, which
  ends at the next single quote. \<open>None\<close> when there is no such declaration, when the
  literal is not closed, and when it holds a backslash or a line break (an escape or a
  syntax error, which this reading does not follow).
\<close>

fun text_after :: "string \<Rightarrow> string \<Rightarrow> string option" where
  "text_after marker [] = (if marker = [] then Some [] else None)"
| "text_after marker (c # cs) =
     (if take (length marker) (c # cs) = marker then Some (drop (length marker) (c # cs))
      else text_after marker cs)"

fun literal_chars :: "string \<Rightarrow> (string \<times> string) option" where
  "literal_chars [] = None"
| "literal_chars (c # cs) =
     (if c = CHR 0x27 then Some ([], cs)
      else if c = CHR 0x5C \<or> c = CHR 0x0A \<or> c = CHR 0x0D then None
      else
        (case literal_chars cs of
           None \<Rightarrow> None
         | Some (s, rest) \<Rightarrow> Some (c # s, rest)))"

definition single_quoted :: "string \<Rightarrow> (string \<times> string) option" where
  "single_quoted s =
     (case s of
        [] \<Rightarrow> None
      | c # cs \<Rightarrow> if c = CHR 0x27 then literal_chars cs else None)"

text \<open>The declared label, and the text of the script that follows the literal.\<close>

definition declared_label :: "string \<Rightarrow> (string \<times> string) option" where
  "declared_label script =
     (case text_after ''const ENTRYPOINT_LABEL = '' script of
        None \<Rightarrow> None
      | Some rest \<Rightarrow> single_quoted rest)"

subsection \<open>Example inputs\<close>

definition example_module :: module_consts where
  "example_module =
     \<lparr>NODE_VERSION_IDENTIFIER = ''node16'', edgeHandlerTemplate = ''addEventListener()''\<rparr>"

definition example_server :: server where
  "example_server = \<lparr>server_url = ''http://127.0.0.1:3000''\<rparr>"

text \<open>A host whose bundler settles to \<open>built\<close> and whose sandbox starts.\<close>

definition example_host :: "js_error + build_result \<Rightarrow> (unit, unit, unit) host" where
  "example_host built =
     \<lparr>createEdgeWasmPlugin = ((), ()),
      esbuild_build = (\<lambda>_. built),
      getContext = (\<lambda>_. Inr []),
      new_EdgeRuntime = (\<lambda>_. Inr ()),
      runServer = (\<lambda>_. Inr example_server),
      process_env = 0\<rparr>"

text \<open>A POST with the two body bytes \<^verbatim>\<open>hi\<close>.\<close>

definition example_request :: incoming_message where
  "example_request =
     \<lparr>msg_url = Some ''/api/edge?x=1'', msg_method = Some ''POST'',
      msg_headers = [(''host'', Single ''localhost''), (''set-cookie'', Multiple [''a=1'', ''b=2''])],
      msg_body = Inr [0x68, 0x69]\<rparr>"

text \<open>A sandbox that answers every call with the given response.\<close>

definition example_fetch ::
  "fetch_response \<Rightarrow> string \<Rightarrow> fetch_init \<Rightarrow> js_error + fetch_response" where
  "example_fetch response url init = Inr response"

text \<open>A response of the harness for user code that threw, with the given status.\<close>

definition failed_response :: "int \<Rightarrow> fetch_response" where
  "failed_response status =
     \<lparr>resp_status = status,
      resp_headers = [(''content-type'', [''text/plain'']), (''x-vercel-failed'', [''edge-wrapper''])],
      resp_text = Inr ''ReferenceError: foo is not defined''\<rparr>"

text \<open>A store with the host's environment object at address 0 and an empty context at address 1.\<close>

definition example_heap :: heap where
  "example_heap =
     \<lparr>objects = [0 \<mapsto> [''API_KEY'' \<mapsto> VString ''secret''], 1 \<mapsto> Map.empty], next_addr = 2\<rparr>"

text \<open>
  A relative path with a single quote in it, \<^verbatim>\<open>x';process.exit(7);//\<close>, and a file name
  with an apostrophe, \<^verbatim>\<open>api/it's.ts\<close>.
\<close>

definition quoted_path :: string where
  "quoted_path = ''x'' @ [CHR 0x27] @ '';process.exit(7);//''"

definition apostrophe_path :: string where
  "apostrophe_path = ''api/it'' @ [CHR 0x27] @ ''s.ts''"

text \<open>A host whose bundler gives the one output file \<^verbatim>\<open>module.exports = handler\<close>.\<close>

definition bundling_host :: "(unit, unit, unit) host" where
  "bundling_host =
     example_host (Inr \<lparr>outputFiles = Some [\<lparr>file_text = ''module.exports = handler''\<rparr>]\<rparr>)"




text \<open>
  Requests like the example whose bodies are the UTF-8 encoding of the euro sign U+20AC,
  and the two bytes \<^verbatim>\<open>FF 68\<close>, the first of which can be part of no UTF-8 sequence.
\<close>

definition euro_request :: incoming_message where
  "euro_request = example_request\<lparr>msg_body := Inr [0xE2, 0x82, 0xAC]\<rparr>"

definition ill_formed_request :: incoming_message where
  "ill_formed_request = example_request\<lparr>msg_body := Inr [0xFF, 0x68]\<rparr>"

section \<open>Properties\<close>

subsection \<open>Splitting and joining\<close>

lemma js_split_not_Nil: "js_split sep s \<noteq> []"
  by (induction s) (auto split: list.splits)

lemma js_split_no_sep: "sep \<notin> set s \<Longrightarrow> js_split sep s = [s]"
  by (induction s) auto

lemma js_split_append_sep:
  "js_split sep (a @ sep # b) = js_split sep a @ js_split sep b"
proof (induction a)
  case Nil
  show ?case by simp
next
  case (Cons c a)
  obtain p ps where ps: "js_split sep a = p # ps"
    using js_split_not_Nil [of sep a] by (cases "js_split sep a") auto
  with Cons show ?case by simp
qed

lemma js_join_snoc:
  "ps \<noteq> [] \<Longrightarrow> js_join sep (ps @ [p]) = js_join sep ps @ sep @ p"
  by (induction sep ps rule: js_join.induct) auto

lemma js_join_split: "js_join [sep] (js_split sep s) = s"
proof (induction s)
  case Nil
  show ?case by simp
next
  case (Cons c s)
  obtain p ps where ps: "js_split sep s = p # ps"
    using js_split_not_Nil [of sep s] by (cases "js_split sep s") auto
  show ?case
  proof (cases "c = sep")
    case True
    with Cons ps show ?thesis by simp
  next
    case False
    with Cons ps show ?thesis by (cases ps) auto
  qed
qed

lemma extractUrlPath_no_dot:
  "CHR ''.'' \<notin> set p \<Longrightarrow> extractUrlPath p = p"
  by (simp add: extractUrlPath_def js_split_no_sep)

lemma extractUrlPath_strips_suffix:
  assumes "CHR ''.'' \<notin> set suffix"
  shows "extractUrlPath (stem @ ''.'' @ suffix) = stem"
proof -
  let ?parts = "js_split (CHR ''.'') stem"
  have split: "js_split (CHR ''.'') (stem @ ''.'' @ suffix) = ?parts @ [suffix]"
    using assms by (simp add: js_split_append_sep js_split_no_sep)
  have "length (?parts @ [suffix]) \<noteq> 1"
    using js_split_not_Nil [of "CHR ''.''" stem] by (cases ?parts) auto
  then show ?thesis
    unfolding extractUrlPath_def split Let_def js_pop_def
    by (simp add: js_join_split)
qed

text \<open>
  C5. The route label is a function of the relative path alone: a path without a dot is
  returned unchanged, a path \<open>stem.suffix\<close> whose suffix has no dot gives \<open>stem\<close>, and
  the three paths of the specification give \<open>api/some.func\<close>, \<open>api/plain\<close> and \<open>a.b\<close>.
\<close>

theorem extractUrlPath_route_label:
  "(CHR ''.'' \<notin> set p \<longrightarrow> extractUrlPath p = p)
   \<and> (CHR ''.'' \<notin> set suffix \<longrightarrow> extractUrlPath (stem @ ''.'' @ suffix) = stem)
   \<and> extractUrlPath ''api/some.func.js'' = ''api/some.func''
   \<and> extractUrlPath ''api/plain'' = ''api/plain''
   \<and> extractUrlPath ''a.b.c'' = ''a.b''"
proof -
  have "extractUrlPath (''api/some.func'' @ ''.'' @ ''js'') = ''api/some.func''"
    by (rule extractUrlPath_strips_suffix) simp
  moreover have "extractUrlPath ''api/plain'' = ''api/plain''"
    by (rule extractUrlPath_no_dot) simp
  moreover have "extractUrlPath (''a.b'' @ ''.'' @ ''c'') = ''a.b''"
    by (rule extractUrlPath_strips_suffix) simp
  ultimately show ?thesis
    using extractUrlPath_no_dot [of p] extractUrlPath_strips_suffix [of suffix stem]
    by simp
qed

theorem extractUrlPath_route_label_witness:
  "CHR ''.'' \<notin> set ''Makefile'' \<and> extractUrlPath ''Makefile'' = ''Makefile''
   \<and> CHR ''.'' \<notin> set ''ts'' \<and> extractUrlPath ''pages/api/edge.ts'' = ''pages/api/edge''"
  using extractUrlPath_route_label [of "''Makefile''" "''ts''" "''pages/api/edge''"]
  by simp

subsection \<open>The effect primitives\<close>

lemmas proc_defs = ret_def throw_def process_exit_def emit_def await_def bind_def try_catch_def

subsection \<open>Compiling\<close>

text \<open>The three ways \<^verbatim>\<open>compileUserCode\<close> ends, by what the bundler settles to.\<close>

lemma compileUserCode_cases:
  "compileUserCode m host full rel mw =
     (case esbuild_build host (esbuild_options m (snd (createEdgeWasmPlugin host)) full) of
        Inl e \<Rightarrow>
          ([EsbuildBuild (esbuild_options m (snd (createEdgeWasmPlugin host)) full),
            ConsoleError ''Failed to compile user code for edge runtime.'',
            ConsoleError (message e)], Returned None)
      | Inr result \<Rightarrow>
          (case first_output_file result of
             None \<Rightarrow>
               ([EsbuildBuild (esbuild_options m (snd (createEdgeWasmPlugin host)) full),
                 ConsoleError ''Failed to compile user code for edge runtime.'',
                 ConsoleError (''Compilation of '' @ rel @ '' produced no output files.'')],
                Returned None)
           | Some f \<Rightarrow>
               ([EsbuildBuild (esbuild_options m (snd (createEdgeWasmPlugin host)) full)],
                Returned (Some \<lparr>userCode = wrap_user_code m (file_text f) mw rel,
                                wasmAssets = fst (createEdgeWasmPlugin host)\<rparr>))))"
  by (simp add: compileUserCode_def proc_defs logError_def new_Error_def
           split: prod.splits sum.splits option.splits)

lemma createEdgeRuntime_None: "createEdgeRuntime host None = ([], Returned None)"
  by (simp add: createEdgeRuntime_def proc_defs)

lemma handle_None: "handle rel None fetch request = ([], Exited 1)"
  by (simp add: handle_def proc_defs)

text \<open>
  When the bundler returns an output file, \<^verbatim>\<open>compileUserCode\<close> returns the text made of
  the strict-mode prologue, the text of the first output file, the two declarations
  (\<^verbatim>\<open>IS_MIDDLEWARE\<close> with the flag printed as \<^verbatim>\<open>true\<close> or \<^verbatim>\<open>false\<close>, \<^verbatim>\<open>ENTRYPOINT_LABEL\<close> with
  the characters of the relative path put between two single quotes as they are) and the
  harness template, together with the asset set of the plugin; nothing is logged.
\<close>

lemma compile_success_text:
  fixes host :: "('w, 'p, 'r) host"
  assumes built: "esbuild_build host (esbuild_options m (snd (createEdgeWasmPlugin host)) full) = Inr result"
    and files: "outputFiles result = Some (f # fs)"
  shows "compileUserCode m host full rel mw =
     ([EsbuildBuild (esbuild_options m (snd (createEdgeWasmPlugin host)) full)],
      Returned (Some
        \<lparr>userCode =
           ''\<newline>      // strict mode\<newline>      '' @ [CHR 0x22] @ ''use strict'' @ [CHR 0x22]
           @ '';var regeneratorRuntime;\<newline>\<newline>      // user code\<newline>      ''
           @ file_text f
           @ '';\<newline>\<newline>      // request metadata\<newline>      const IS_MIDDLEWARE = ''
           @ (if mw then ''true'' else ''false'')
           @ '';\<newline>      const ENTRYPOINT_LABEL = '' @ [CHR 0x27] @ rel @ [CHR 0x27]
           @ '';\<newline>\<newline>      // edge handler\<newline>      ''
           @ edgeHandlerTemplate m @ ''\<newline>    '',
         wasmAssets = fst (createEdgeWasmPlugin host)\<rparr>))"
  using built files
  by (simp add: compileUserCode_cases first_output_file_def wrap_user_code_def
        strict_mode_prologue_def request_metadata_def string_of_bool_def)

text \<open>
  A string literal between single quotes ends at its first single quote: what is read
  from the text of a path between two quotes is the path when the path has no single quote,
  backslash or line break, and only the part before its first single quote when it has
  one (and no backslash or line break before it).
\<close>

lemma literal_chars_first_quote:
  assumes "\<forall>c \<in> set p. c \<noteq> CHR 0x27 \<and> c \<noteq> CHR 0x5C \<and> c \<noteq> CHR 0x0A \<and> c \<noteq> CHR 0x0D"
  shows "literal_chars (p @ CHR 0x27 # rest) = Some (p, rest)"
  using assms by (induction p) simp_all

lemma single_quoted_plain_path:
  assumes "\<forall>c \<in> set rel. c \<noteq> CHR 0x27 \<and> c \<noteq> CHR 0x5C \<and> c \<noteq> CHR 0x0A \<and> c \<noteq> CHR 0x0D"
  shows "single_quoted ([CHR 0x27] @ rel @ [CHR 0x27] @ rest) = Some (rel, rest)"
  using literal_chars_first_quote [OF assms] by (simp add: single_quoted_def)

lemma single_quoted_path_with_quote:
  assumes "\<forall>c \<in> set p. c \<noteq> CHR 0x27 \<and> c \<noteq> CHR 0x5C \<and> c \<noteq> CHR 0x0A \<and> c \<noteq> CHR 0x0D"
  shows "single_quoted ([CHR 0x27] @ (p @ CHR 0x27 # q) @ [CHR 0x27] @ rest)
           = Some (p, q @ [CHR 0x27] @ rest)"
  using literal_chars_first_quote [OF assms] by (simp add: single_quoted_def)

text \<open>
  C3. The script that \<^verbatim>\<open>compileUserCode\<close> returns for an entrypoint that bundles is the
  prologue, the bundle, the two declarations and the template, but its \<^verbatim>\<open>ENTRYPOINT_LABEL\<close>
  is not the relative path for every path: line 75 puts the path between single quotes
  without escaping it. For the relative path \<^verbatim>\<open>x';process.exit(7);//\<close> the script declares
  the label \<^verbatim>\<open>x\<close>, and the rest of the path is code of the script that follows the
  declaration; for the file name \<^verbatim>\<open>api/it's.ts\<close> the literal ends after \<^verbatim>\<open>api/it\<close> and the
  declaration is followed by \<^verbatim>\<open>s.ts';\<close>.
\<close>

theorem entrypoint_label_not_escaped:
  "(compileUserCode example_module bundling_host ''/repo/x'' quoted_path False
      :: (unit, unit, unit compiled option) proc) =
     ([EsbuildBuild (esbuild_options example_module () ''/repo/x'')],
      Returned (Some
        \<lparr>userCode = wrap_user_code example_module ''module.exports = handler'' False quoted_path,
         wasmAssets = ()\<rparr>))
   \<and> declared_label (wrap_user_code example_module ''module.exports = handler'' False quoted_path) =
       Some (''x'', '';process.exit(7);//'' @ [CHR 0x27]
                     @ '';\<newline>\<newline>      // edge handler\<newline>      addEventListener()\<newline>    '')
   \<and> ''x'' \<noteq> quoted_path
   \<and> (compileUserCode example_module bundling_host ''/repo/api/it.ts'' apostrophe_path False
      :: (unit, unit, unit compiled option) proc) =
     ([EsbuildBuild (esbuild_options example_module () ''/repo/api/it.ts'')],
      Returned (Some
        \<lparr>userCode = wrap_user_code example_module ''module.exports = handler'' False apostrophe_path,
         wasmAssets = ()\<rparr>))
   \<and> declared_label (wrap_user_code example_module ''module.exports = handler'' False apostrophe_path) =
       Some (''api/it'', ''s.ts'' @ [CHR 0x27]
                     @ '';\<newline>\<newline>      // edge handler\<newline>      addEventListener()\<newline>    '')
   \<and> ''api/it'' \<noteq> apostrophe_path"
  by (simp add: compileUserCode_cases bundling_host_def example_host_def example_module_def
        first_output_file_def wrap_user_code_def strict_mode_prologue_def request_metadata_def
        string_of_bool_def declared_label_def single_quoted_def quoted_path_def
        apostrophe_path_def)

text \<open>
  C7. \<^verbatim>\<open>compileUserCode\<close> always returns, whatever the bundler does. An error thrown by the
  bundler, and the error made when the bundler gives no output file (its message names
  the relative path), is caught: the console gets the fixed line and the message of the
  error, nothing of its stack, and the program returned is absent.
\<close>

theorem compile_catches_build_errors:
  fixes host :: "('w, 'p, 'r) host" and m full
  defines "options \<equiv> esbuild_options m (snd (createEdgeWasmPlugin host)) full"
  shows "(\<exists>program. snd (compileUserCode m host full rel mw) = Returned program)
     \<and> (esbuild_build host options = Inl e \<longrightarrow>
          compileUserCode m host full rel mw =
            ([EsbuildBuild options,
              ConsoleError ''Failed to compile user code for edge runtime.'',
              ConsoleError (message e)],
             Returned None))
     \<and> (esbuild_build host options = Inr result \<and> first_output_file result = None \<longrightarrow>
          compileUserCode m host full rel mw =
            ([EsbuildBuild options,
              ConsoleError ''Failed to compile user code for edge runtime.'',
              ConsoleError (''Compilation of '' @ rel @ '' produced no output files.'')],
             Returned None))"
  unfolding options_def
  by (simp add: compileUserCode_cases split: sum.splits option.splits)

theorem compile_catches_build_errors_witness:
  "compileUserCode example_module
       (example_host (Inl \<lparr>message = ''Build failed with 1 error'', stack = ''at esbuild''\<rparr>))
       ''/repo/api/edge.ts'' ''api/edge.ts'' False =
     ([EsbuildBuild (esbuild_options example_module () ''/repo/api/edge.ts''),
       ConsoleError ''Failed to compile user code for edge runtime.'',
       ConsoleError ''Build failed with 1 error''],
      Returned None)
   \<and> compileUserCode example_module (example_host (Inr \<lparr>outputFiles = None\<rparr>))
       ''/repo/api/edge.ts'' ''api/edge.ts'' False =
     ([EsbuildBuild (esbuild_options example_module () ''/repo/api/edge.ts''),
       ConsoleError ''Failed to compile user code for edge runtime.'',
       ConsoleError ''Compilation of api/edge.ts produced no output files.''],
      Returned None)"
  using compile_catches_build_errors [where host =
            "example_host (Inl \<lparr>message = ''Build failed with 1 error'', stack = ''at esbuild''\<rparr>)"
          and m = example_module and full = "''/repo/api/edge.ts''"
          and e = "\<lparr>message = ''Build failed with 1 error'', stack = ''at esbuild''\<rparr>"
          and rel = "''api/edge.ts''" and mw = False]
        compile_catches_build_errors [where host = "example_host (Inr \<lparr>outputFiles = None\<rparr>)"
          and m = example_module and full = "''/repo/api/edge.ts''"
          and result = "\<lparr>outputFiles = None\<rparr>" and rel = "''api/edge.ts''" and mw = False]
  by (simp add: example_host_def first_output_file_def)

text \<open>
  C2. When compilation fails (the bundler throws, or gives no output file),
  \<^verbatim>\<open>compileUserCode\<close> returns an absent program and \<^verbatim>\<open>createEdgeRuntime\<close> returns no
  server without calling any collaborator: the whole trace of \<^verbatim>\<open>createEdgeEventHandler\<close>
  is the call of the bundler, the line of \<^verbatim>\<open>console.error\<close> and what \<^verbatim>\<open>logError\<close> prints for
  the error. It returns a handler (the
  process does not exit yet), and that handler ends the process with exit code 1 on every
  request, without a call of \<^verbatim>\<open>fetch\<close> and without a response.
\<close>

theorem compile_failure_fails_fast:
  fixes host :: "('w, 'p, 'r) host" and m full
  defines "options \<equiv> esbuild_options m (snd (createEdgeWasmPlugin host)) full"
  shows "(esbuild_build host options = Inl e \<longrightarrow>
            snd (compileUserCode m host full rel mw) = Returned None
          \<and> createEdgeEventHandler m host full rel mw =
              (EsbuildBuild options
                 # ConsoleError ''Failed to compile user code for edge runtime.''
                 # fst (logError e :: ('w, 'p, unit) proc),
               Returned (handle rel None)))
     \<and> (esbuild_build host options = Inr result \<and> first_output_file result = None \<longrightarrow>
            snd (compileUserCode m host full rel mw) = Returned None
          \<and> createEdgeEventHandler m host full rel mw =
              (EsbuildBuild options
                 # ConsoleError ''Failed to compile user code for edge runtime.''
                 # fst (logError (new_Error (''Compilation of '' @ rel @ '' produced no output files.''))
                          :: ('w, 'p, unit) proc),
               Returned (handle rel None)))
     \<and> createEdgeRuntime host None = ([], Returned None)
     \<and> handle rel None fetch request = (([], Exited 1) :: ('w, 'p, proxy_response) proc)"
  unfolding options_def
  by (simp add: compileUserCode_cases createEdgeEventHandler_def createEdgeRuntime_None
        handle_None bind_def ret_def logError_def emit_def new_Error_def)

theorem compile_failure_fails_fast_witness:
  "createEdgeEventHandler example_module (example_host (Inl (new_Error ''Build failed with 1 error'')))
       ''/repo/api/edge.ts'' ''api/edge.ts'' False =
     ([EsbuildBuild (esbuild_options example_module () ''/repo/api/edge.ts''),
       ConsoleError ''Failed to compile user code for edge runtime.'',
       ConsoleError ''Build failed with 1 error''],
      Returned (handle ''api/edge.ts'' None))
   \<and> createEdgeEventHandler example_module (example_host (Inr \<lparr>outputFiles = Some []\<rparr>))
       ''/repo/api/edge.ts'' ''api/edge.ts'' False =
     ([EsbuildBuild (esbuild_options example_module () ''/repo/api/edge.ts''),
       ConsoleError ''Failed to compile user code for edge runtime.'',
       ConsoleError ''Compilation of api/edge.ts produced no output files.''],
      Returned (handle ''api/edge.ts'' None))
   \<and> handle ''api/edge.ts'' None
        (example_fetch \<lparr>resp_status = 200, resp_headers = [], resp_text = Inr ''ok''\<rparr>)
        example_request = (([], Exited 1) :: (unit, unit, proxy_response) proc)"
  using compile_failure_fails_fast [where host = "example_host (Inl (new_Error ''Build failed with 1 error''))"
          and m = example_module and full = "''/repo/api/edge.ts''"
          and e = "new_Error ''Build failed with 1 error''" and rel = "''api/edge.ts''" and mw = False
          and fetch = "example_fetch \<lparr>resp_status = 200, resp_headers = [], resp_text = Inr ''ok''\<rparr>"
          and request = example_request]
        compile_failure_fails_fast [where host = "example_host (Inr \<lparr>outputFiles = Some []\<rparr>)"
          and m = example_module and full = "''/repo/api/edge.ts''"
          and result = "\<lparr>outputFiles = Some []\<rparr>" and rel = "''api/edge.ts''" and mw = False]
  by (simp add: example_host_def new_Error_def first_output_file_def logError_def emit_def)

subsection \<open>Handling a request through a running sandbox\<close>

text \<open>
  What \<^verbatim>\<open>handle\<close> does once the body is drained, the sandbox has answered and the text
  of the answer is read.
\<close>

lemma handle_running:
  assumes drained: "msg_body request = Inr bytes"
    and answered: "fetch (server_url srv)
                     (fetch_options (JSON_stringify (request_object request (base64 bytes)))) = Inr response"
    and read: "resp_text response = Inr body_text"
  shows "handle rel (Some srv) fetch request =
     (if headers_get (resp_headers response) ''x-vercel-failed'' = Some ''edge-wrapper''
         \<and> resp_status response \<ge> 500
      then ([Fetch (server_url srv) (fetch_options (JSON_stringify (request_object request (base64 bytes)))),
             ConsoleLog (''Error from API Route '' @ extractUrlPath rel @ '': '' @ body_text
                          @ ''\<newline>    at ('' @ rel @ '')'')],
            Exited 1)
      else ([Fetch (server_url srv) (fetch_options (JSON_stringify (request_object request (base64 bytes))))],
            Returned \<lparr>statusCode = resp_status response, headers = resp_headers response,
                      body = body_text, encoding = ''utf8''\<rparr>))"
  using assms by (simp add: handle_def serializeRequest_def proc_defs Let_def)

text \<open>
  C1. A response with the header \<^verbatim>\<open>x-vercel-failed: edge-wrapper\<close> and a status of 500 or
  more makes \<^verbatim>\<open>handle\<close> log one line, \<^verbatim>\<open>Error from API Route\<close> with the route label, the
  text of the response body and the one-frame stack trace \<^verbatim>\<open>at (relative path)\<close>, and end
  the process with exit code 1. With the same header and a status below 500 nothing is
  logged and the response is returned.
\<close>

theorem user_error_is_fatal:
  assumes drained: "msg_body request = Inr bytes"
    and answered: "fetch (server_url srv)
                     (fetch_options (JSON_stringify (request_object request (base64 bytes)))) = Inr response"
    and read: "resp_text response = Inr body_text"
    and marked: "headers_get (resp_headers response) ''x-vercel-failed'' = Some ''edge-wrapper''"
  shows "(resp_status response \<ge> 500 \<longrightarrow>
            (handle rel (Some srv) fetch request :: ('w, 'p, proxy_response) proc) =
              ([Fetch (server_url srv) (fetch_options (JSON_stringify (request_object request (base64 bytes)))),
                ConsoleLog (''Error from API Route '' @ extractUrlPath rel @ '': '' @ body_text
                              @ ''\<newline>    at ('' @ rel @ '')'')],
               Exited 1))
       \<and> (resp_status response < 500 \<longrightarrow>
            (handle rel (Some srv) fetch request :: ('w, 'p, proxy_response) proc) =
              ([Fetch (server_url srv) (fetch_options (JSON_stringify (request_object request (base64 bytes))))],
               Returned \<lparr>statusCode = resp_status response, headers = resp_headers response,
                         body = body_text, encoding = ''utf8''\<rparr>))"
  by (simp add: marked handle_running [where fetch = fetch, OF drained answered read])

theorem user_error_is_fatal_witness:
  "(handle ''api/some.func.js'' (Some example_server) (example_fetch (failed_response 500)) example_request
      :: (unit, unit, proxy_response) proc) =
     ([Fetch ''http://127.0.0.1:3000''
         (fetch_options (JSON_stringify (request_object example_request (base64 [0x68, 0x69])))),
       ConsoleLog ''Error from API Route api/some.func: ReferenceError: foo is not defined\<newline>    at (api/some.func.js)''],
      Exited 1)
   \<and> (handle ''api/some.func.js'' (Some example_server) (example_fetch (failed_response 200)) example_request
      :: (unit, unit, proxy_response) proc) =
     ([Fetch ''http://127.0.0.1:3000''
         (fetch_options (JSON_stringify (request_object example_request (base64 [0x68, 0x69]))))],
      Returned \<lparr>statusCode = 200,
                headers = [(''content-type'', [''text/plain'']), (''x-vercel-failed'', [''edge-wrapper''])],
                body = ''ReferenceError: foo is not defined'', encoding = ''utf8''\<rparr>)"
  using user_error_is_fatal [where request = example_request and bytes = "[0x68, 0x69]"
          and fetch = "example_fetch (failed_response 500)" and srv = example_server
          and response = "failed_response 500" and body_text = "''ReferenceError: foo is not defined''"
          and rel = "''api/some.func.js''" and ?'w = unit and ?'p = unit]
        user_error_is_fatal [where request = example_request and bytes = "[0x68, 0x69]"
          and fetch = "example_fetch (failed_response 200)" and srv = example_server
          and response = "failed_response 200" and body_text = "''ReferenceError: foo is not defined''"
          and rel = "''api/some.func.js''" and ?'w = unit and ?'p = unit]
  by (simp add: example_request_def example_fetch_def failed_response_def example_server_def
        headers_get_def to_lower_def extractUrlPath_def js_pop_def)







subsection \<open>The node version\<close>

lemma is_digit_dot: "\<not> is_digit (CHR ''.'')"
  by (simp add: is_digit_def)

lemma takeWhile_digits:
  "list_all is_digit major \<Longrightarrow> takeWhile is_digit (major @ CHR ''.'' # rest) = major"
  by (induction major) (simp_all add: is_digit_dot)

lemma dropWhile_digits:
  "list_all is_digit major \<Longrightarrow> dropWhile is_digit (major @ CHR ''.'' # rest) = CHR ''.'' # rest"
  by (induction major) (simp_all add: is_digit_dot)

text \<open>The matcher agrees with the pattern in words, and the group is the major version.\<close>

lemma match_node_version_pattern:
  assumes "major \<noteq> []" "list_all is_digit major" "minor \<noteq> []" "list_all is_digit minor"
  shows "match_node_version (''v'' @ major @ ''.'' @ minor @ rest) = Some major"
proof -
  obtain d ds where minor: "minor = d # ds" using assms(3) by (cases minor) auto
  with assms(4) have d: "is_digit d" by simp
  show ?thesis
    using assms(1,2) d
    by (simp add: match_node_version_def minor takeWhile_digits dropWhile_digits Let_def)
qed

lemma match_node_version_Some:
  assumes "match_node_version version = Some major"
  shows "\<exists>minor rest. version = ''v'' @ major @ ''.'' @ minor @ rest
           \<and> major \<noteq> [] \<and> list_all is_digit major \<and> minor \<noteq> [] \<and> list_all is_digit minor"
proof -
  from assms obtain cs where v: "version = CHR ''v'' # cs"
    by (cases version) (auto simp: match_node_version_def split: if_splits)
  from assms v have major: "major = takeWhile is_digit cs" and ne: "major \<noteq> []"
    by (auto simp: match_node_version_def Let_def split: if_splits list.splits)
  from assms v obtain d rest where dr: "dropWhile is_digit cs = CHR ''.'' # d # rest" and d: "is_digit d"
    by (auto simp: match_node_version_def Let_def split: if_splits list.splits)
  have "cs = major @ CHR ''.'' # [d] @ rest"
    using takeWhile_dropWhile_id [of is_digit cs] major dr by simp
  moreover have "list_all is_digit major"
    unfolding major list_all_iff by (auto dest: set_takeWhileD)
  ultimately show ?thesis
    using v ne d by (intro exI [of _ "[d]"] exI [of _ rest]) simp
qed

lemma match_node_version_None_iff:
  "match_node_version version = None \<longleftrightarrow> \<not> matches_version_pattern version"
proof
  assume none: "match_node_version version = None"
  show "\<not> matches_version_pattern version"
  proof
    assume "matches_version_pattern version"
    then obtain major minor rest where "version = ''v'' @ major @ ''.'' @ minor @ rest"
      "major \<noteq> []" "list_all is_digit major" "minor \<noteq> []" "list_all is_digit minor"
      unfolding matches_version_pattern_def by blast
    then have "match_node_version version = Some major"
      using match_node_version_pattern by simp
    with none show False by simp
  qed
next
  assume no: "\<not> matches_version_pattern version"
  show "match_node_version version = None"
  proof (cases "match_node_version version")
    case None
    then show ?thesis .
  next
    case (Some major)
    from match_node_version_Some [OF this] have "matches_version_pattern version"
      unfolding matches_version_pattern_def by blast
    with no show ?thesis by simp
  qed
qed

text \<open>
  C10. When \<^verbatim>\<open>process.version\<close> does not match the pattern, loading the module throws
  the error \<^verbatim>\<open>Unable to determine current node version\<close>, so a process that loads the
  module and then asks for a handler gets the error and no handler, and nothing has been
  called. When the version is \<^verbatim>\<open>v\<close>, digits, a dot and digits (and anything after), the
  module loads whenever the template is read, its identifier is \<^verbatim>\<open>node\<close> followed by the
  first run of digits, and every compilation calls the bundler once, with that target.
\<close>

theorem node_version_target:
  fixes host :: "('w, 'p, 'r) host"
  shows
  "(\<not> matches_version_pattern version \<longrightarrow>
      load_module version template_file =
        Inl (new_Error (''Unable to determine current node version: process.version='' @ version))
    \<and> load_and_create version template_file host full rel mw =
        ([], Thrown (new_Error (''Unable to determine current node version: process.version='' @ version))))
   \<and> (major \<noteq> [] \<and> list_all is_digit major \<and> minor \<noteq> [] \<and> list_all is_digit minor \<longrightarrow>
        load_module (''v'' @ major @ ''.'' @ minor @ rest) (Inr template) =
          Inr \<lparr>NODE_VERSION_IDENTIFIER = ''node'' @ major, edgeHandlerTemplate = template\<rparr>
      \<and> (\<forall>m. load_module (''v'' @ major @ ''.'' @ minor @ rest) template_file = Inr m \<longrightarrow>
             map target (esbuild_calls (fst (compileUserCode m host full rel mw))) = [''node'' @ major]))"
proof (intro conjI impI allI)
  assume "\<not> matches_version_pattern version"
  then have none: "match_node_version version = None"
    by (simp add: match_node_version_None_iff)
  then show load: "load_module version template_file =
        Inl (new_Error (''Unable to determine current node version: process.version='' @ version))"
    by (simp add: load_module_def js_not_def Let_def)
  show "load_and_create version template_file host full rel mw =
        ([], Thrown (new_Error (''Unable to determine current node version: process.version='' @ version)))"
    by (simp add: load_and_create_def load proc_defs)
next
  assume p: "major \<noteq> [] \<and> list_all is_digit major \<and> minor \<noteq> [] \<and> list_all is_digit minor"
  then have some: "match_node_version (''v'' @ major @ ''.'' @ minor @ rest) = Some major"
    using match_node_version_pattern by blast
  with p show "load_module (''v'' @ major @ ''.'' @ minor @ rest) (Inr template) =
          Inr \<lparr>NODE_VERSION_IDENTIFIER = ''node'' @ major, edgeHandlerTemplate = template\<rparr>"
    unfolding load_module_def Let_def by (simp add: js_not_def string_of_optional_def)
  fix m
  assume "load_module (''v'' @ major @ ''.'' @ minor @ rest) template_file = Inr m"
  with some p have "NODE_VERSION_IDENTIFIER m = ''node'' @ major"
    unfolding load_module_def Let_def
    by (auto simp: js_not_def string_of_optional_def split: sum.splits if_splits)
  then show "map target (esbuild_calls (fst (compileUserCode m host full rel mw))) = [''node'' @ major]"
    by (simp add: compileUserCode_cases esbuild_options_def split: sum.splits option.splits)
qed

theorem node_version_target_witness:
  "\<not> matches_version_pattern ''16.14.0''
   \<and> load_module ''16.14.0'' (Inr ''addEventListener()'') =
        Inl (new_Error ''Unable to determine current node version: process.version=16.14.0'')
   \<and> load_and_create ''16.14.0'' (Inr ''addEventListener()'') (example_host (Inr \<lparr>outputFiles = None\<rparr>))
        ''/repo/api/edge.ts'' ''api/edge.ts'' False =
        ([], Thrown (new_Error ''Unable to determine current node version: process.version=16.14.0''))
   \<and> load_module ''v16.14.0'' (Inr ''addEventListener()'') = Inr example_module
   \<and> map target (esbuild_calls (fst (compileUserCode example_module
          (example_host (Inr \<lparr>outputFiles = None\<rparr>)) ''/repo/api/edge.ts'' ''api/edge.ts'' False))) =
        [''node16'']"
proof -
  have no: "\<not> matches_version_pattern ''16.14.0''"
    by (simp add: match_node_version_None_iff [symmetric] match_node_version_def)
  have digits: "''16'' \<noteq> [] \<and> list_all is_digit ''16'' \<and> ''14'' \<noteq> [] \<and> list_all is_digit ''14''"
    by (simp add: is_digit_def)
  show ?thesis
    using no digits
      node_version_target [where version = "''16.14.0''" and template_file = "Inr ''addEventListener()''"
        and template = "''addEventListener()''"
        and host = "example_host (Inr \<lparr>outputFiles = None\<rparr>)" and full = "''/repo/api/edge.ts''"
        and rel = "''api/edge.ts''" and mw = False and major = "''16''" and minor = "''14''"
        and rest = "''.0''"]
    by (simp add: example_module_def)
qed

subsection \<open>The environment handed to the sandbox\<close>

lemma dom_set_prop: "dom (objects (set_prop h a k v)) = dom (objects h)"
  by (auto simp: set_prop_def split: option.splits)

lemma dom_object_assign: "dom (objects (object_assign h a kvs)) = dom (objects h)"
  by (induction h a kvs rule: object_assign.induct) (simp_all add: dom_set_prop)

lemma get_prop_set_prop:
  "a \<in> dom (objects h) \<Longrightarrow>
     get_prop (set_prop h a k v) a' k' = (if a' = a \<and> k' = k then v else get_prop h a' k')"
  by (auto simp: get_prop_def set_prop_def split: option.splits)

lemma get_prop_object_assign_other:
  "a' \<noteq> a \<Longrightarrow> get_prop (object_assign h a kvs) a' k = get_prop h a' k"
proof (induction h a kvs rule: object_assign.induct)
  case (1 h a)
  then show ?case by simp
next
  case (2 h a k' v kvs)
  then show ?case by (auto simp: get_prop_def set_prop_def split: option.splits)
qed

lemma get_prop_object_assign_notin:
  "k \<notin> fst ` set kvs \<Longrightarrow> get_prop (object_assign h a kvs) a k = get_prop h a k"
proof (induction h a kvs rule: object_assign.induct)
  case (1 h a)
  then show ?case by simp
next
  case (2 h a k' v kvs)
  then have "k \<noteq> k'" by auto
  with 2 show ?case
    by (auto simp: get_prop_def set_prop_def split: option.splits)
qed

lemma sandbox_env_object_extend:
  assumes ctx: "ctxt \<in> dom (objects h)" and ctx_old: "ctxt < next_addr h"
    and names: "''process'' \<notin> fst ` set wasmBindings"
  shows "sandbox_env_object (fst (extend_context env wasmBindings h ctxt)) ctxt = Some env"
proof -
  let ?h1 = "fst (alloc h Map.empty)"
  let ?h2 = "fst (alloc ?h1 [''env'' \<mapsto> VObject env])"
  let ?p = "Suc (next_addr h)"
  let ?h3 = "set_prop (set_prop ?h2 ctxt ''module'' (VObject (next_addr h))) ctxt ''process'' (VObject ?p)"
  have h: "fst (extend_context env wasmBindings h ctxt) = object_assign ?h3 ctxt wasmBindings"
    by (simp add: extend_context_def alloc_def Let_def)
  have ctx2: "ctxt \<in> dom (objects ?h2)"
    using ctx ctx_old by (auto simp: alloc_def)
  have neq: "?p \<noteq> ctxt" using ctx_old by simp
  have "get_prop (object_assign ?h3 ctxt wasmBindings) ctxt ''process'' = get_prop ?h3 ctxt ''process''"
    using names by (rule get_prop_object_assign_notin)
  also have "\<dots> = VObject ?p"
    using ctx2 by (simp add: get_prop_set_prop dom_set_prop)
  finally have process: "get_prop (object_assign ?h3 ctxt wasmBindings) ctxt ''process'' = VObject ?p" .
  have "get_prop (object_assign ?h3 ctxt wasmBindings) ?p ''env'' = get_prop ?h3 ?p ''env''"
    using neq by (rule get_prop_object_assign_other)
  also have "\<dots> = get_prop ?h2 ?p ''env''"
    using ctx2 neq by (simp add: get_prop_set_prop dom_set_prop)
  also have "\<dots> = VObject env"
    by (simp add: get_prop_def alloc_def)
  finally have env: "get_prop (object_assign ?h3 ctxt wasmBindings) ?p ''env'' = VObject env" .
  show ?thesis
    unfolding h sandbox_env_object_def by (simp add: process env)
qed

lemma extend_context_dom:
  "dom (objects h) \<subseteq> dom (objects (fst (extend_context env wasmBindings h ctxt)))"
  by (auto simp: extend_context_def alloc_def Let_def dom_object_assign dom_set_prop)

lemma sandbox_env_object_set_prop:
  assumes "sandbox_env_object h ctxt = Some env" and "a \<noteq> ctxt"
    and "\<And>p. get_prop h ctxt ''process'' = VObject p \<Longrightarrow> a \<noteq> p"
    and "a \<in> dom (objects h)"
  shows "sandbox_env_object (set_prop h a k v) ctxt = Some env"
  using assms
  by (auto simp: sandbox_env_object_def get_prop_set_prop split: jsval.splits)


lemma objects_set_prop_other: "a' \<noteq> a \<Longrightarrow> objects (set_prop h a k v) a' = objects h a'"
  by (simp add: set_prop_def split: option.splits)

lemma objects_object_assign_other:
  "a' \<noteq> a \<Longrightarrow> objects (object_assign h a kvs) a' = objects h a'"
  by (induction h a kvs rule: object_assign.induct) (simp_all add: objects_set_prop_other)

text \<open>The \<^verbatim>\<open>process\<close> object that the callback makes has the one property \<^verbatim>\<open>env\<close>.\<close>

lemma process_object_extend:
  assumes "ctxt < next_addr h"
  shows "objects (fst (extend_context env wasmBindings h ctxt)) (Suc (next_addr h))
           = Some [''env'' \<mapsto> VObject env]"
  using assms
  by (simp add: extend_context_def Let_def split_beta objects_object_assign_other
        objects_set_prop_other alloc_def)

lemma get_prop_set_prop_other:
  "a' \<noteq> a \<Longrightarrow> get_prop (set_prop h a k v) a' k' = get_prop h a' k'"
  by (auto simp: get_prop_def set_prop_def split: option.splits)

lemma host_getenv_extend:
  assumes "env \<noteq> ctxt" "env < next_addr h"
  shows "host_getenv (fst (extend_context env wasmBindings h ctxt)) env name = host_getenv h env name"
proof -
  have "get_prop (fst (alloc (fst (alloc h Map.empty)) [''env'' \<mapsto> VObject env])) env name
          = get_prop h env name"
    using assms(2) by (simp add: get_prop_def alloc_def)
  then show ?thesis
    using assms(1)
    by (simp add: host_getenv_def extend_context_def Let_def split_beta
          get_prop_object_assign_other get_prop_set_prop_other)
qed

text \<open>
  C9 (as amended). The \<^verbatim>\<open>extend\<close> callback returns the context it was given; the
  global \<^verbatim>\<open>process\<close> of that context is a new object with the one property \<^verbatim>\<open>env\<close>, and
  that \<^verbatim>\<open>process.env\<close> is the host's own environment object, handed over by reference: the sandbox reads every variable of the host, unfiltered; a variable the
  host sets after the sandbox has started is read inside the sandbox; and a write of the
  sandbox through the injected object is a write to the host's environment. (For a
  context and an environment object that exist before the call and are two objects, and
  bindings none of which is named \<^verbatim>\<open>process\<close>.)
\<close>

theorem sandbox_env_is_host_env:
  assumes ctx: "ctxt \<in> dom (objects h)" "ctxt < next_addr h"
    and env: "env \<in> dom (objects h)" "env < next_addr h" "env \<noteq> ctxt"
    and names: "''process'' \<notin> fst ` set wasmBindings"
  shows "snd (extend_context env wasmBindings h ctxt) = ctxt
     \<and> get_prop (fst (extend_context env wasmBindings h ctxt)) ctxt ''process''
           = VObject (Suc (next_addr h))
     \<and> objects (fst (extend_context env wasmBindings h ctxt)) (Suc (next_addr h))
           = Some [''env'' \<mapsto> VObject env]
     \<and> sandbox_env_object (fst (extend_context env wasmBindings h ctxt)) ctxt = Some env
     \<and> sandbox_getenv (fst (extend_context env wasmBindings h ctxt)) ctxt name
           = Some (host_getenv h env name)
     \<and> sandbox_getenv (host_setenv (fst (extend_context env wasmBindings h ctxt)) env name v)
           ctxt name = Some (VString v)
     \<and> sandbox_setenv (fst (extend_context env wasmBindings h ctxt)) ctxt name v
           = Some (host_setenv (fst (extend_context env wasmBindings h ctxt)) env name v)
     \<and> host_getenv (host_setenv (fst (extend_context env wasmBindings h ctxt)) env name v) env name
           = VString v"
proof -
  let ?h1 = "fst (extend_context env wasmBindings h ctxt)"
  have same: "snd (extend_context env wasmBindings h ctxt) = ctxt"
    by (simp add: extend_context_def Let_def alloc_def)
  have shared: "sandbox_env_object ?h1 ctxt = Some env"
    using ctx names by (rule sandbox_env_object_extend)
  have env1: "env \<in> dom (objects ?h1)"
    using env(1) extend_context_dom by blast
  have process: "get_prop ?h1 ctxt ''process'' = VObject (Suc (next_addr h))"
  proof -
    have "ctxt \<in> dom (objects (fst (alloc (fst (alloc h Map.empty)) [''env'' \<mapsto> VObject env])))"
      using ctx by (auto simp: alloc_def)
    then show ?thesis
      using names
      by (simp add: extend_context_def Let_def alloc_def get_prop_object_assign_notin
            get_prop_set_prop dom_set_prop)
  qed
  have read: "sandbox_getenv ?h1 ctxt name = Some (host_getenv h env name)"
    using shared host_getenv_extend [OF env(3) env(2)]
    by (simp add: sandbox_getenv_def host_getenv_def)
  have kept: "sandbox_env_object (host_setenv ?h1 env name v) ctxt = Some env"
    unfolding host_setenv_def
    using shared env(3) _ env1
  proof (rule sandbox_env_object_set_prop)
    fix p assume "get_prop ?h1 ctxt ''process'' = VObject p"
    with process have "p = Suc (next_addr h)" by simp
    with env(2) show "env \<noteq> p" by simp
  qed
  have live: "sandbox_getenv (host_setenv ?h1 env name v) ctxt name = Some (VString v)"
    using kept env1
    by (simp add: sandbox_getenv_def host_setenv_def get_prop_set_prop)
  have written: "sandbox_setenv ?h1 ctxt name v = Some (host_setenv ?h1 env name v)"
    using shared by (simp add: sandbox_setenv_def host_setenv_def)
  have seen: "host_getenv (host_setenv ?h1 env name v) env name = VString v"
    using env1 by (simp add: host_getenv_def host_setenv_def get_prop_set_prop)
  have only_env: "objects ?h1 (Suc (next_addr h)) = Some [''env'' \<mapsto> VObject env]"
    using ctx(2) by (rule process_object_extend)
  from same process only_env shared read live written seen show ?thesis by blast
qed

theorem sandbox_env_is_host_env_witness:
  "sandbox_getenv (fst (extend_context 0 [(''wasm_1'', VObject 7)] example_heap 1)) 1 ''API_KEY''
     = Some (VString ''secret'')
   \<and> sandbox_getenv (host_setenv (fst (extend_context 0 [(''wasm_1'', VObject 7)] example_heap 1))
        0 ''NEW_VAR'' ''1'') 1 ''NEW_VAR'' = Some (VString ''1'')"
  using sandbox_env_is_host_env [where ctxt = 1 and h = example_heap and env = 0
          and wasmBindings = "[(''wasm_1'', VObject 7)]" and name = "''API_KEY''" and v = "''x''"]
        sandbox_env_is_host_env [where ctxt = 1 and h = example_heap and env = 0
          and wasmBindings = "[(''wasm_1'', VObject 7)]" and name = "''NEW_VAR''" and v = "''1''"]
  by (simp add: example_heap_def host_getenv_def get_prop_def)

text \<open>
  C9 as stated fails: the injected object is no snapshot and not read-only. In the example
  store the host's environment is the object at address 0 and the context the object at
  address 1. A run in which the host sets \<^verbatim>\<open>API_KEY\<close> after the sandbox has started and a
  run in which it does not differ in what the sandbox reads, and a write by the sandbox
  changes what the host reads.
\<close>

theorem env_snapshot_counterexample:
  "sandbox_getenv (fst (extend_context 0 [] example_heap 1)) 1 ''API_KEY'' = Some (VString ''secret'')
   \<and> sandbox_getenv (host_setenv (fst (extend_context 0 [] example_heap 1)) 0 ''API_KEY'' ''rotated'')
         1 ''API_KEY'' = Some (VString ''rotated'')
   \<and> sandbox_getenv (fst (extend_context 0 [] example_heap 1)) 1 ''API_KEY''
       \<noteq> sandbox_getenv (host_setenv (fst (extend_context 0 [] example_heap 1)) 0 ''API_KEY'' ''rotated'')
           1 ''API_KEY''
   \<and> host_getenv (fst (extend_context 0 [] example_heap 1)) 0 ''API_KEY'' = VString ''secret''
   \<and> sandbox_setenv (fst (extend_context 0 [] example_heap 1)) 1 ''API_KEY'' ''overwritten''
       = Some (host_setenv (fst (extend_context 0 [] example_heap 1)) 0 ''API_KEY'' ''overwritten'')
   \<and> host_getenv (host_setenv (fst (extend_context 0 [] example_heap 1)) 0 ''API_KEY'' ''overwritten'')
         0 ''API_KEY'' = VString ''overwritten''"
  by (simp add: example_heap_def extend_context_def alloc_def Let_def sandbox_getenv_def
        sandbox_setenv_def sandbox_env_object_def host_getenv_def host_setenv_def
        get_prop_def set_prop_def)

subsection \<open>Base64: decoding what was encoded\<close>

lemma b64_value_char: "n < 64 \<Longrightarrow> b64_value (b64_char n) = Some n"
  by (auto simp: b64_value_def b64_char_def Let_def)

lemma b64_char_not_pad: "n < 64 \<Longrightarrow> b64_char n \<noteq> CHR ''=''"
proof
  assume n: "n < 64" and eq: "b64_char n = CHR ''=''"
  from eq have "(of_char (b64_char n) :: nat) = of_char (CHR ''='')" by simp
  with n show False
    by (simp add: b64_char_def split: if_splits)
qed

lemma byte_bound: "unat (a :: byte) < 256"
  using unsigned_less [of a, where ?'a = nat] by simp

lemma sextets:
  fixes a b c :: byte
  shows "unat a div 4 < 64" "unat a mod 4 * 16 < 64" "unat a mod 4 * 16 + unat b div 16 < 64"
    "unat b mod 16 * 4 < 64" "unat b mod 16 * 4 + unat c div 64 < 64" "unat c mod 64 < 64"
  using byte_bound [of a] byte_bound [of b] byte_bound [of c] by simp_all

lemma octet_a: "y < 256 \<Longrightarrow> x div 4 * 4 + (x mod 4 * 16 + y div 16) div 16 = (x::nat)"
  by simp

lemma octet_b:
  assumes "y < 256" "z < 256"
  shows "(x mod 4 * 16 + y div 16) mod 16 * 16 + (y mod 16 * 4 + z div 64) div 4 = (y::nat)"
proof -
  have 1: "(x mod 4 * 16 + y div 16) mod 16 = y div 16" using assms(1) by simp
  have 2: "(y mod 16 * 4 + z div 64) div 4 = y mod 16" using assms(2) by simp
  show ?thesis unfolding 1 2 by simp
qed

lemma octet_c:
  assumes "z < 256"
  shows "(y mod 16 * 4 + z div 64) mod 4 * 64 + z mod 64 = (z::nat)"
proof -
  have 1: "(y mod 16 * 4 + z div 64) mod 4 = z div 64" using assms by simp
  show ?thesis unfolding 1 by simp
qed

lemma decode_group:
  assumes "s1 < 64" "s2 < 64" "s3 < 64" "s4 < 64"
  shows "base64_decode (b64_char s1 # b64_char s2 # b64_char s3 # b64_char s4 # cs) =
           (case base64_decode cs of
              None \<Rightarrow> None
            | Some bytes \<Rightarrow>
                Some (of_nat (s1 * 4 + s2 div 16) # of_nat (s2 mod 16 * 16 + s3 div 4)
                      # of_nat (s3 mod 4 * 64 + s4) # bytes))"
  using assms by (simp add: b64_value_char b64_char_not_pad)

lemma decode_last_two:
  assumes "s1 < 64" "s2 < 64" "s3 < 64"
  shows "base64_decode [b64_char s1, b64_char s2, b64_char s3, CHR ''=''] =
           Some [of_nat (s1 * 4 + s2 div 16), of_nat (s2 mod 16 * 16 + s3 div 4)]"
  using assms by (simp add: b64_value_char b64_char_not_pad)

lemma decode_last_one:
  assumes "s1 < 64" "s2 < 64"
  shows "base64_decode [b64_char s1, b64_char s2, CHR ''='', CHR ''=''] =
           Some [of_nat (s1 * 4 + s2 div 16)]"
  using assms by (simp add: b64_value_char)

lemma base64_decode_base64: "base64_decode (base64 bytes) = Some bytes"
proof (induction bytes rule: base64.induct)
  case 1
  show ?case by simp
next
  case (2 a)
  have eqA: "unat a div 4 * 4 + unat a mod 4 * 16 div 16 = unat a" by simp
  have A: "(of_nat (unat a div 4 * 4 + unat a mod 4 * 16 div 16) :: byte) = a"
    unfolding eqA by simp
  show ?case
    by (simp only: base64.simps decode_last_one [OF sextets(1) sextets(2)] A)
next
  case (3 a b)
  have eqA: "unat a div 4 * 4 + (unat a mod 4 * 16 + unat b div 16) div 16 = unat a"
    using byte_bound [of b] by (rule octet_a)
  have A: "(of_nat (unat a div 4 * 4 + (unat a mod 4 * 16 + unat b div 16) div 16) :: byte) = a"
    unfolding eqA by simp
  have eqB: "(unat a mod 4 * 16 + unat b div 16) mod 16 * 16 + unat b mod 16 * 4 div 4 = unat b"
    using octet_b [of "unat b" 0 "unat a"] byte_bound [of b] by simp
  have B: "(of_nat ((unat a mod 4 * 16 + unat b div 16) mod 16 * 16 + unat b mod 16 * 4 div 4) :: byte) = b"
    unfolding eqB by simp
  show ?case
    by (simp only: base64.simps decode_last_two [OF sextets(1) sextets(3) sextets(4)] A B)
next
  case (4 a b c bytes)
  have eqA: "unat a div 4 * 4 + (unat a mod 4 * 16 + unat b div 16) div 16 = unat a"
    using byte_bound [of b] by (rule octet_a)
  have A: "(of_nat (unat a div 4 * 4 + (unat a mod 4 * 16 + unat b div 16) div 16) :: byte) = a"
    unfolding eqA by simp
  have eqB: "(unat a mod 4 * 16 + unat b div 16) mod 16 * 16
          + (unat b mod 16 * 4 + unat c div 64) div 4 = unat b"
    using byte_bound [of b] byte_bound [of c] by (rule octet_b)
  have B: "(of_nat ((unat a mod 4 * 16 + unat b div 16) mod 16 * 16
          + (unat b mod 16 * 4 + unat c div 64) div 4) :: byte) = b"
    unfolding eqB by simp
  have eqC: "(unat b mod 16 * 4 + unat c div 64) mod 4 * 64 + unat c mod 64 = unat c"
    using byte_bound [of c] by (rule octet_c)
  have C: "(of_nat ((unat b mod 16 * 4 + unat c div 64) mod 4 * 64 + unat c mod 64) :: byte) = c"
    unfolding eqC by simp
  show ?case
    by (simp only: base64.simps append_Cons append_Nil
          decode_group [OF sextets(1) sextets(3) sextets(5) sextets(6)] "4.IH" option.case A B C)
qed

subsection \<open>JSON: parsing what was written\<close>

lemma hex_value_digit: "n < 16 \<Longrightarrow> hex_value (hex_digit n) = Some n"
  by (auto simp: hex_value_def hex_digit_def Let_def)

lemma char_by_code: "(of_char c :: nat) = of_char d \<Longrightarrow> c = d"
  by simp

lemma parse_chars_escape:
  "parse_chars (json_escape_char c @ rest) =
     (case parse_chars rest of None \<Rightarrow> None | Some (s, r) \<Rightarrow> Some (c # s, r))"
proof -
  define n where "n = (of_char c :: nat)"
  have n: "n < 256" by (simp add: n_def)
  consider (special) "c \<in> {CHR 0x08, CHR 0x09, CHR 0x0A, CHR 0x0C, CHR 0x0D, CHR 0x22, CHR 0x5C}"
    | (control) "n < 32" "n \<notin> {8, 9, 10, 12, 13}"
    | (plain) "32 \<le> n" "n \<noteq> 34" "n \<noteq> 92"
  proof -
    have "n \<in> {8, 9, 10, 12, 13, 34, 92} \<Longrightarrow>
            c \<in> {CHR 0x08, CHR 0x09, CHR 0x0A, CHR 0x0C, CHR 0x0D, CHR 0x22, CHR 0x5C}"
      unfolding n_def by (auto intro: char_by_code)
    then show ?thesis
      using that by fastforce
  qed
  then show ?thesis
  proof cases
    case special
    then show ?thesis
      by (auto simp: json_escape_char_def json_unescape_def)
  next
    case control
    have code: "char_of n = c" by (simp add: n_def)
    have quote: "c \<noteq> CHR 0x22" and backslash: "c \<noteq> CHR 0x5C"
      using control(1) unfolding n_def by auto
    have hex: "hex4_value (CHR ''0'') (CHR ''0'') (hex_digit (n div 16)) (hex_digit (n mod 16)) = Some n"
      using control(1) hex_value_digit [of "n div 16"] hex_value_digit [of "n mod 16"]
      by (simp add: hex4_value_def hex_value_def)
    have esc: "json_escape_char c =
        [CHR 0x5C, CHR ''u'', CHR ''0'', CHR ''0'', hex_digit (n div 16), hex_digit (n mod 16)]"
      using control by (simp add: json_escape_char_def n_def [symmetric] Let_def)
    show ?thesis
      unfolding esc using control(1) by (simp add: hex code split: option.splits)
  next
    case plain
    have quote: "c \<noteq> CHR 0x22" and backslash: "c \<noteq> CHR 0x5C"
      using plain unfolding n_def by auto
    have esc: "json_escape_char c = [c]"
      using plain by (simp add: json_escape_char_def n_def [symmetric] Let_def)
    show ?thesis
      unfolding esc using plain(1) quote backslash by (simp add: n_def)
  qed
qed

lemma parse_chars_quoted:
  "parse_chars (concat (map json_escape_char s) @ CHR 0x22 # rest) = Some (s, rest)"
  by (induction s) (simp_all add: parse_chars_escape)

lemma parse_value_quoted:
  "parse_value (Suc n) (json_quote s @ rest) = Some (JString s, rest)"
  by (simp add: json_quote_def parse_chars_quoted)

lemma parse_elements_join:
  assumes parsed: "\<And>v n rest. v \<in> set vs \<Longrightarrow> length (JSON_stringify v) \<le> n \<Longrightarrow>
                      parse_value n (JSON_stringify v @ rest) = Some (v, rest)"
    and "vs \<noteq> []" and "length (js_join '','' (map JSON_stringify vs)) < n"
  shows "parse_elements n (js_join '','' (map JSON_stringify vs) @ CHR '']'' # rest) = Some (vs, rest)"
  using assms
proof (induction vs arbitrary: n)
  case Nil
  then show ?case by simp
next
  case (Cons v vs)
  from Cons.prems(3) obtain m where n: "n = Suc m" by (cases n) auto
  show ?case
  proof (cases vs)
    case Nil
    have "parse_value m (JSON_stringify v @ CHR '']'' # rest) = Some (v, CHR '']'' # rest)"
      using Cons.prems(3) n Nil by (intro Cons.prems(1)) simp_all
    then show ?thesis by (simp add: n Nil)
  next
    case (Cons w ws)
    let ?tail = "js_join '','' (map JSON_stringify (w # ws)) @ CHR '']'' # rest"
    have len: "length (JSON_stringify v) \<le> m" "length (js_join '','' (map JSON_stringify (w # ws))) < m"
      using Cons.prems(3) n Cons by simp_all
    have first: "parse_value m (JSON_stringify v @ CHR '','' # ?tail) = Some (v, CHR '','' # ?tail)"
      using len(1) by (intro Cons.prems(1)) simp_all
    have rest: "parse_elements m ?tail = Some (w # ws, rest)"
      unfolding Cons [symmetric]
    proof (rule Cons.IH)
      show "vs \<noteq> []" using Cons by simp
      show "length (js_join '','' (map JSON_stringify vs)) < m"
        using len(2) Cons by simp
    next
      fix v' n' rest'
      assume "v' \<in> set vs" "length (JSON_stringify v') \<le> n'"
      then show "parse_value n' (JSON_stringify v' @ rest') = Some (v', rest')"
        using Cons.prems(1) [of v' n' rest'] by simp
    qed
    show ?thesis
      using first rest by (simp add: n Cons)
  qed
qed

lemma parse_members_join:
  assumes parsed: "\<And>k v n rest. (k, v) \<in> set kvs \<Longrightarrow> length (JSON_stringify v) \<le> n \<Longrightarrow>
                      parse_value n (JSON_stringify v @ rest) = Some (v, rest)"
    and "kvs \<noteq> []"
    and "length (js_join '','' (map (\<lambda>(k, v). json_quote k @ '':'' @ JSON_stringify v) kvs)) < n"
  shows "parse_members n (js_join '','' (map (\<lambda>(k, v). json_quote k @ '':'' @ JSON_stringify v) kvs)
                          @ CHR ''}'' # rest) = Some (kvs, rest)"
  using assms
proof (induction kvs arbitrary: n)
  case Nil
  then show ?case by simp
next
  case (Cons kv kvs)
  obtain k v where kv: "kv = (k, v)" by (cases kv)
  from Cons.prems(3) obtain m where n: "n = Suc m" by (cases n) auto
  have key: "\<And>r. parse_chars (concat (map json_escape_char k) @ CHR 0x22 # r) = Some (k, r)"
    by (rule parse_chars_quoted)
  show ?case
  proof (cases kvs)
    case Nil
    have "parse_value m (JSON_stringify v @ CHR ''}'' # rest) = Some (v, CHR ''}'' # rest)"
      using Cons.prems(3) n Nil kv by (intro Cons.prems(1) [of k]) simp_all
    then show ?thesis by (simp add: n Nil kv json_quote_def key)
  next
    case (Cons kw kws)
    let ?tail = "js_join '','' (map (\<lambda>(k, v). json_quote k @ '':'' @ JSON_stringify v) (kw # kws))
                   @ CHR ''}'' # rest"
    have len: "length (JSON_stringify v) \<le> m"
      "length (js_join '','' (map (\<lambda>(k, v). json_quote k @ '':'' @ JSON_stringify v) (kw # kws))) < m"
      using Cons.prems(3) n Cons kv by simp_all
    have first: "parse_value m (JSON_stringify v @ CHR '','' # ?tail) = Some (v, CHR '','' # ?tail)"
      using len(1) kv by (intro Cons.prems(1) [of k]) simp_all
    have rest: "parse_members m ?tail = Some (kw # kws, rest)"
      unfolding Cons [symmetric]
    proof (rule Cons.IH)
      show "kvs \<noteq> []" using Cons by simp
      show "length (js_join '','' (map (\<lambda>(k, v). json_quote k @ '':'' @ JSON_stringify v) kvs)) < m"
        using len(2) Cons by simp
    next
      fix k' v' n' rest'
      assume "(k', v') \<in> set kvs" "length (JSON_stringify v') \<le> n'"
      then show "parse_value n' (JSON_stringify v' @ rest') = Some (v', rest')"
        using Cons.prems(1) [of k' v' n' rest'] by simp
    qed
    show ?thesis
      using first rest by (simp add: n Cons kv json_quote_def key)
  qed
qed

lemma stringify_first:
  "\<exists>c cs. JSON_stringify v = c # cs \<and> c \<noteq> CHR '']'' \<and> c \<noteq> CHR ''}''"
  by (cases v) (simp_all add: json_quote_def)

lemma parse_value_stringify:
  "length (JSON_stringify v) \<le> n \<Longrightarrow> parse_value n (JSON_stringify v @ rest) = Some (v, rest)"
proof (induction v arbitrary: n rest)
  case (JString s)
  then obtain m where "n = Suc m" by (cases n) (auto simp: json_quote_def)
  then show ?case by (simp only: JSON_stringify.simps parse_value_quoted)
next
  case (JArray vs)
  from JArray.prems obtain m where n: "n = Suc m" by (cases n) auto
  show ?case
  proof (cases vs)
    case Nil
    then show ?thesis by (simp add: n)
  next
    case (Cons w ws)
    obtain c cs where c: "JSON_stringify w = c # cs" "c \<noteq> CHR '']''"
      using stringify_first by blast
    have "parse_elements m (js_join '','' (map JSON_stringify vs) @ CHR '']'' # rest) = Some (vs, rest)"
      using JArray.prems n Cons by (intro parse_elements_join JArray.IH) simp_all
    moreover have "\<exists>tl. js_join '','' (map JSON_stringify vs) @ CHR '']'' # rest = c # tl"
      using Cons c(1) by (cases ws) simp_all
    ultimately show ?thesis
      using c(2) by (auto simp: n)
  qed
next
  case (JObject kvs)
  from JObject.prems obtain m where n: "n = Suc m" by (cases n) auto
  show ?case
  proof (cases kvs)
    case Nil
    then show ?thesis by (simp add: n)
  next
    case (Cons kw kws)
    let ?members = "js_join '','' (map (\<lambda>(k, v). json_quote k @ '':'' @ JSON_stringify v) kvs)"
    have "parse_members m (?members @ CHR ''}'' # rest) = Some (kvs, rest)"
      using JObject.prems n Cons
    proof (intro parse_members_join)
      fix k v n' rest'
      assume "(k, v) \<in> set kvs" "length (JSON_stringify v) \<le> n'"
      then show "parse_value n' (JSON_stringify v @ rest') = Some (v, rest')"
        using JObject.IH [of "(k, v)" v n' rest'] by simp
    qed simp_all
    moreover have "\<exists>tl. ?members @ CHR ''}'' # rest = CHR 0x22 # tl"
      using Cons by (cases kw; cases kws) (simp_all add: json_quote_def)
    ultimately show ?thesis
      by (auto simp: n)
  qed
qed

lemma JSON_parse_stringify: "JSON_parse (JSON_stringify v) = Some v"
  using parse_value_stringify [of v "length (JSON_stringify v)" "[]"]
  by (simp add: JSON_parse_def)

subsection \<open>UTF-8: reading what was encoded\<close>

lemma unat_byte: "n < 256 \<Longrightarrow> unat (of_nat n :: byte) = n"
  by (simp add: unat_of_nat)

lemma div_64_64: "(cp::nat) div 64 div 64 = cp div 4096"
  by (simp add: div_mult2_eq)

lemma mod_64_of_div_64: "(cp::nat) div 64 mod 64 = cp div 64 - 64 * (cp div 4096)"
  using minus_mult_div_eq_mod [of "cp div 64" 64] div_64_64 [of cp] by simp

lemma div_4096_64: "(cp::nat) div 4096 div 64 = cp div 262144"
  by (simp add: div_mult2_eq)

lemma mod_64_of_div_4096: "(cp::nat) div 4096 mod 64 = cp div 4096 - 64 * (cp div 262144)"
  using minus_mult_div_eq_mod [of "cp div 4096" 64] div_4096_64 [of cp] by simp

text \<open>The steps of the decoder on a byte that is in bounds.\<close>

lemma utf8_lead1:
  "unat b \<le> 0x7F \<Longrightarrow>
     utf8_decode 0 0x80 0xBF [] (b # bs) = char_of (unat b) # utf8_decode 0 0x80 0xBF [] bs"
  by (subst utf8_decode.simps) simp

lemma utf8_lead2:
  "0xC2 \<le> unat b \<Longrightarrow> unat b \<le> 0xDF \<Longrightarrow>
     utf8_decode 0 0x80 0xBF [] (b # bs) = utf8_decode 1 0x80 0xBF [b] bs"
  by (subst utf8_decode.simps) simp

lemma utf8_lead3:
  "0xE0 \<le> unat b \<Longrightarrow> unat b \<le> 0xEF \<Longrightarrow>
     utf8_decode 0 0x80 0xBF [] (b # bs) =
       utf8_decode 2 (if unat b = 0xE0 then 0xA0 else 0x80) (if unat b = 0xED then 0x9F else 0xBF) [b] bs"
  by (subst utf8_decode.simps) simp

lemma utf8_lead4:
  "0xF0 \<le> unat b \<Longrightarrow> unat b \<le> 0xF4 \<Longrightarrow>
     utf8_decode 0 0x80 0xBF [] (b # bs) =
       utf8_decode 3 (if unat b = 0xF0 then 0x90 else 0x80) (if unat b = 0xF4 then 0x8F else 0xBF) [b] bs"
  by (subst utf8_decode.simps) simp

lemma utf8_continue3:
  "lower \<le> unat b \<Longrightarrow> unat b \<le> upper \<Longrightarrow>
     utf8_decode 3 lower upper seen (b # bs) = utf8_decode 2 0x80 0xBF (seen @ [b]) bs"
  by (subst utf8_decode.simps) simp

lemma utf8_continue2:
  "lower \<le> unat b \<Longrightarrow> unat b \<le> upper \<Longrightarrow>
     utf8_decode 2 lower upper seen (b # bs) = utf8_decode 1 0x80 0xBF (seen @ [b]) bs"
  by (subst utf8_decode.simps) simp

lemma utf8_last:
  "lower \<le> unat b \<Longrightarrow> unat b \<le> upper \<Longrightarrow>
     utf8_decode 1 lower upper seen (b # bs) =
       map (\<lambda>x. char_of (unat x)) (seen @ [b]) @ utf8_decode 0 0x80 0xBF [] bs"
  by (subst utf8_decode.simps) simp

text \<open>
  The decoder reads the encoding of a scalar value as that character, whatever follows.
\<close>

lemma utf8_decode_encode:
  assumes "is_scalar_value cp"
  shows "utf8_decode 0 0x80 0xBF [] (utf8_encode cp @ rest) =
           map (\<lambda>b. char_of (unat b)) (utf8_encode cp) @ utf8_decode 0 0x80 0xBF [] rest"
proof -
  let ?c1 = "of_nat (0x80 + cp mod 64) :: byte"
  let ?c2 = "of_nat (0x80 + cp div 64 mod 64) :: byte"
  let ?c3 = "of_nat (0x80 + cp div 4096 mod 64) :: byte"
  have c1: "unat ?c1 = 0x80 + cp mod 64" by (intro unat_byte) simp
  have c2: "unat ?c2 = 0x80 + cp div 64 mod 64" by (intro unat_byte) simp
  have c3: "unat ?c3 = 0x80 + cp div 4096 mod 64" by (intro unat_byte) simp
  have t1: "0x80 \<le> unat ?c1" "unat ?c1 \<le> 0xBF" unfolding c1 by simp_all
  have t2: "0x80 \<le> unat ?c2" "unat ?c2 \<le> 0xBF" unfolding c2 by simp_all
  consider (one) "cp < 0x80" | (two) "0x80 \<le> cp" "cp < 0x800"
    | (three) "0x800 \<le> cp" "cp < 0x10000" | (four) "0x10000 \<le> cp" "cp < 0x110000"
    using assms unfolding is_scalar_value_def by linarith
  then show ?thesis
  proof cases
    case one
    then have enc: "utf8_encode cp = [of_nat cp]" by (simp add: utf8_encode_def)
    have "unat (of_nat cp :: byte) \<le> 0x7F" using one by (simp add: unat_byte)
    then show ?thesis unfolding enc by (simp only: append_Cons append_Nil utf8_lead1 list.map)
  next
    case two
    let ?l = "of_nat (0xC0 + cp div 64) :: byte"
    have enc: "utf8_encode cp = [?l, ?c1]" using two by (simp add: utf8_encode_def)
    have l: "unat ?l = 0xC0 + cp div 64" using two by (intro unat_byte) simp
    have lead: "0xC2 \<le> unat ?l" "unat ?l \<le> 0xDF" unfolding l using two by simp_all
    show ?thesis
      unfolding enc
      by (simp only: append_Cons append_Nil utf8_lead2 [OF lead] utf8_last [OF t1] list.map)
  next
    case three
    let ?l = "of_nat (0xE0 + cp div 4096) :: byte"
    have enc: "utf8_encode cp = [?l, ?c2, ?c1]" using three by (simp add: utf8_encode_def)
    have l: "unat ?l = 0xE0 + cp div 4096" using three by (intro unat_byte) simp
    have lead: "0xE0 \<le> unat ?l" "unat ?l \<le> 0xEF" unfolding l using three by simp_all
    have lo: "cp div 4096 = 0 \<Longrightarrow> 32 \<le> cp div 64 mod 64"
      using three unfolding mod_64_of_div_64 by simp
    have "cp div 4096 = 13 \<Longrightarrow> cp < 57344"
      by simp
    then have "cp div 4096 = 13 \<Longrightarrow> cp < 55296"
      using assms unfolding is_scalar_value_def by linarith
    then have hi: "cp div 4096 = 13 \<Longrightarrow> cp div 64 mod 64 \<le> 31"
      unfolding mod_64_of_div_64 by simp
    have second: "(if unat ?l = 0xE0 then 0xA0 else 0x80) \<le> unat ?c2"
      "unat ?c2 \<le> (if unat ?l = 0xED then 0x9F else 0xBF)"
      unfolding l c2 using lo hi by auto
    show ?thesis
      unfolding enc
      by (simp only: append_Cons append_Nil utf8_lead3 [OF lead] utf8_continue2 [OF second]
            utf8_last [OF t1] list.map)
  next
    case four
    let ?l = "of_nat (0xF0 + cp div 262144) :: byte"
    have enc: "utf8_encode cp = [?l, ?c3, ?c2, ?c1]" using four by (simp add: utf8_encode_def)
    have l: "unat ?l = 0xF0 + cp div 262144" using four by (intro unat_byte) simp
    have lead: "0xF0 \<le> unat ?l" "unat ?l \<le> 0xF4" unfolding l using four by simp_all
    have lo: "cp div 262144 = 0 \<Longrightarrow> 16 \<le> cp div 4096 mod 64"
      using four unfolding mod_64_of_div_4096 by simp
    have hi: "cp div 262144 = 4 \<Longrightarrow> cp div 4096 mod 64 \<le> 15"
      using four unfolding mod_64_of_div_4096 by simp
    have second: "(if unat ?l = 0xF0 then 0x90 else 0x80) \<le> unat ?c3"
      "unat ?c3 \<le> (if unat ?l = 0xF4 then 0x8F else 0xBF)"
      unfolding l c3 using lo hi by auto
    show ?thesis
      unfolding enc
      by (simp only: append_Cons append_Nil utf8_lead4 [OF lead] utf8_continue3 [OF second]
            utf8_continue2 [OF t2] utf8_last [OF t1] list.map)
  qed
qed

text \<open>So the bytes of a text in UTF-8 are read as that text.\<close>

lemma utf8_text_code_points:
  "list_all is_scalar_value cps \<Longrightarrow>
     utf8_text (concat (map utf8_encode cps)) = text_of_code_points cps"
  unfolding utf8_text_def text_of_code_points_def
  by (induction cps) (simp_all add: utf8_decode_encode)

text \<open>
  A byte that starts no sequence (\<^verbatim>\<open>80\<close> to \<^verbatim>\<open>C1\<close> and \<^verbatim>\<open>F5\<close> to \<^verbatim>\<open>FF\<close>) is read as the
  replacement character, and reading goes on after it.
\<close>

lemma utf8_text_stray_byte:
  "0x80 \<le> unat b \<and> unat b \<le> 0xC1 \<or> 0xF5 \<le> unat b \<Longrightarrow>
     utf8_text (b # bs) = replacement_character @ utf8_text bs"
  unfolding utf8_text_def by (subst utf8_decode.simps) auto

text \<open>
  A sequence cut short is one replacement character, and the byte that cut it short is
  read again; the bytes of an overlong form, of a surrogate and of a code point above
  U+10FFFF are refused one by one.
\<close>

lemma utf8_text_cut_short:
  "utf8_text [0xE2, 0x82] = replacement_character"
  "utf8_text [0xE2, 0x82, 0x68] = replacement_character @ ''h''"
  by code_simp+

lemma utf8_text_refused:
  "utf8_text [0xC0, 0x80] = replacement_character @ replacement_character"
  "utf8_text [0xED, 0xA0, 0x80] = replacement_character @ replacement_character @ replacement_character"
  "utf8_text [0xF4, 0x90, 0x80, 0x80] =
     replacement_character @ replacement_character @ replacement_character @ replacement_character"
  by code_simp+

subsection \<open>The request round trip\<close>

lemma json_field_request_object:
  "json_field (JSON_stringify (request_object request encoded)) name =
     (if name = ''url'' then map_option JString (msg_url request)
      else if name = ''method'' then map_option JString (msg_method request)
      else if name = ''headers'' then Some (json_of_headers (msg_headers request))
      else if name = ''body'' then Some (JString encoded)
      else None)"
  unfolding json_field_def JSON_parse_stringify
  by (cases "msg_url request"; cases "msg_method request") (simp_all add: request_object_def)

lemma echo_sandbox_answer:
  "echo_sandbox hs url (fetch_options (JSON_stringify (request_object request (base64 bytes)))) =
     Inr \<lparr>resp_status = 200, resp_headers = hs, resp_text = Inr (utf8_text bytes)\<rparr>"
  by (simp add: echo_sandbox_def fetch_options_def json_field_request_object base64_decode_base64)

text \<open>The object of the request, property by property.\<close>

lemma json_of_headers_members:
  "json_of_headers hs =
     JObject (map (\<lambda>(name, v). (name, case v of Single s \<Rightarrow> JString s
                                              | Multiple ss \<Rightarrow> JArray (map JString ss))) hs)"
proof -
  have "json_of_header_value v =
          (case v of Single s \<Rightarrow> JString s | Multiple ss \<Rightarrow> JArray (map JString ss))" for v
    by (cases v) simp_all
  then show ?thesis
    by (simp add: json_of_headers_def)
qed

lemma request_object_members:
  "request_object request encoded =
     JObject
       ((case msg_url request of None \<Rightarrow> [] | Some u \<Rightarrow> [(''url'', JString u)])
        @ (case msg_method request of None \<Rightarrow> [] | Some m \<Rightarrow> [(''method'', JString m)])
        @ [(''headers'',
            JObject (map (\<lambda>(name, v). (name, case v of Single s \<Rightarrow> JString s
                                                     | Multiple ss \<Rightarrow> JArray (map JString ss)))
                       (msg_headers request))),
           (''body'', JString encoded)])"
  by (cases "msg_url request"; cases "msg_method request")
     (simp_all add: request_object_def json_of_headers_members)

text \<open>The payload of the example request, and the texts of three bodies.\<close>

lemma example_payload:
  \<open>JSON_stringify (request_object example_request ''aGk='') =
     ''{"url":"/api/edge?x=1","method":"POST","headers":{"host":"localhost","set-cookie":["a=1","b=2"]},"body":"aGk="}''\<close>
  by code_simp

lemma base64_hi: "base64 [0x68, 0x69] = ''aGk=''"
  by code_simp

lemma utf8_text_hi: "utf8_text [0x68, 0x69] = ''hi''"
  by code_simp

lemma utf8_text_euro: "utf8_text [0xE2, 0x82, 0xAC] = [CHR 0xE2, CHR 0x82, CHR 0xAC]"
  by code_simp

lemma utf8_text_ill_formed: "utf8_text [0xFF, 0x68] = [CHR 0xEF, CHR 0xBF, CHR 0xBD, CHR ''h'']"
  by code_simp

lemma encoding_of_euro: "concat (map utf8_encode [0x20AC]) = [0xE2, 0x82, 0xAC]"
  by (simp add: utf8_encode_def)

lemma chars_of_euro:
  "map (\<lambda>b. char_of (unat b)) [0xE2, 0x82, 0xAC :: byte] = [CHR 0xE2, CHR 0x82, CHR 0xAC]"
  by code_simp

lemma text_of_euro: "text_of_code_points [0x20AC] = [CHR 0xE2, CHR 0x82, CHR 0xAC]"
  unfolding text_of_code_points_def encoding_of_euro by (rule chars_of_euro)

text \<open>
  C4. For a request whose body drains to the bytes \<open>bytes\<close>, \<^verbatim>\<open>serializeRequest\<close> returns a
  JSON text that parses to an object with these properties, in this order: \<^verbatim>\<open>url\<close>, the
  url of the request, and \<^verbatim>\<open>method\<close>, its method (each absent when undefined);
  \<^verbatim>\<open>headers\<close>, an object with one property for each header, by its name, whose value is
  the value of the header as a string, or as an array of strings for a header with a list
  of values; \<^verbatim>\<open>body\<close>, the base64 text of the bytes, which decodes to the bytes again. So
  with a sandbox that echoes the decoded body with status 200, \<^verbatim>\<open>handle\<close> returns status
  200, the headers the sandbox sent, the encoding \<^verbatim>\<open>utf8\<close>, and as body the bytes read as
  UTF-8 text: when the bytes are the UTF-8 encoding of a text, the body is that text.
\<close>

theorem request_round_trip:
  assumes drained: "msg_body request = Inr bytes"
  shows "(serializeRequest request :: ('w, 'p, string) proc) =
           ([], Returned (JSON_stringify (request_object request (base64 bytes))))
     \<and> JSON_parse (JSON_stringify (request_object request (base64 bytes))) =
         Some (JObject
           ((case msg_url request of None \<Rightarrow> [] | Some u \<Rightarrow> [(''url'', JString u)])
            @ (case msg_method request of None \<Rightarrow> [] | Some m \<Rightarrow> [(''method'', JString m)])
            @ [(''headers'',
                JObject (map (\<lambda>(name, v). (name, case v of Single s \<Rightarrow> JString s
                                                         | Multiple ss \<Rightarrow> JArray (map JString ss)))
                           (msg_headers request))),
               (''body'', JString (base64 bytes))]))
     \<and> base64_decode (base64 bytes) = Some bytes
     \<and> (handle rel (Some srv) (echo_sandbox hs) request :: ('w, 'p, proxy_response) proc) =
           ([Fetch (server_url srv)
               (fetch_options (JSON_stringify (request_object request (base64 bytes))))],
            Returned \<lparr>statusCode = 200, headers = hs, body = utf8_text bytes, encoding = ''utf8''\<rparr>)
     \<and> (list_all is_scalar_value cps \<and> bytes = concat (map utf8_encode cps) \<longrightarrow>
          utf8_text bytes = text_of_code_points cps)"
proof -
  have run: "(handle rel (Some srv) (echo_sandbox hs) request :: ('w, 'p, proxy_response) proc) =
           ([Fetch (server_url srv)
               (fetch_options (JSON_stringify (request_object request (base64 bytes))))],
            Returned \<lparr>statusCode = 200, headers = hs, body = utf8_text bytes, encoding = ''utf8''\<rparr>)"
    using drained
    by (simp add: handle_def serializeRequest_def proc_defs Let_def echo_sandbox_answer)
  have parsed: "JSON_parse (JSON_stringify (request_object request (base64 bytes))) =
         Some (JObject
           ((case msg_url request of None \<Rightarrow> [] | Some u \<Rightarrow> [(''url'', JString u)])
            @ (case msg_method request of None \<Rightarrow> [] | Some m \<Rightarrow> [(''method'', JString m)])
            @ [(''headers'',
                JObject (map (\<lambda>(name, v). (name, case v of Single s \<Rightarrow> JString s
                                                         | Multiple ss \<Rightarrow> JArray (map JString ss)))
                           (msg_headers request))),
               (''body'', JString (base64 bytes))]))"
    unfolding JSON_parse_stringify by (simp only: request_object_members)
  have serialized: "(serializeRequest request :: ('w, 'p, string) proc) =
           ([], Returned (JSON_stringify (request_object request (base64 bytes))))"
    using drained by (simp add: serializeRequest_def proc_defs)
  have read_back: "list_all is_scalar_value cps \<and> bytes = concat (map utf8_encode cps) \<longrightarrow>
          utf8_text bytes = text_of_code_points cps"
    by (clarsimp simp: utf8_text_code_points)
  show ?thesis
    by (intro conjI) (fact serialized, fact parsed, rule base64_decode_base64, fact run, fact read_back)
qed

theorem request_round_trip_witness:
  \<open>(serializeRequest example_request :: (unit, unit, string) proc) =
     ([], Returned ''{"url":"/api/edge?x=1","method":"POST","headers":{"host":"localhost","set-cookie":["a=1","b=2"]},"body":"aGk="}'')
   \<and> JSON_parse ''{"url":"/api/edge?x=1","method":"POST","headers":{"host":"localhost","set-cookie":["a=1","b=2"]},"body":"aGk="}'' =
       Some (JObject
         [(''url'', JString ''/api/edge?x=1''),
          (''method'', JString ''POST''),
          (''headers'', JObject [(''host'', JString ''localhost''),
                                 (''set-cookie'', JArray [JString ''a=1'', JString ''b=2''])]),
          (''body'', JString ''aGk='')])
   \<and> base64_decode ''aGk='' = Some [0x68, 0x69]
   \<and> (handle ''api/edge.ts'' (Some example_server)
        (echo_sandbox [(''content-type'', [''text/plain''])]) example_request
        :: (unit, unit, proxy_response) proc) =
       ([Fetch ''http://127.0.0.1:3000''
           (fetch_options ''{"url":"/api/edge?x=1","method":"POST","headers":{"host":"localhost","set-cookie":["a=1","b=2"]},"body":"aGk="}'')],
        Returned \<lparr>statusCode = 200, headers = [(''content-type'', [''text/plain''])],
                  body = ''hi'', encoding = ''utf8''\<rparr>)
   \<and> snd (handle ''api/edge.ts'' (Some example_server) (echo_sandbox []) euro_request
        :: (unit, unit, proxy_response) proc) =
       Returned \<lparr>statusCode = 200, headers = [], body = text_of_code_points [0x20AC],
                 encoding = ''utf8''\<rparr>
   \<and> text_of_code_points [0x20AC] = [CHR 0xE2, CHR 0x82, CHR 0xAC]
   \<and> snd (handle ''api/edge.ts'' (Some example_server) (echo_sandbox []) ill_formed_request
        :: (unit, unit, proxy_response) proc) =
       Returned \<lparr>statusCode = 200, headers = [],
                 body = [CHR 0xEF, CHR 0xBF, CHR 0xBD, CHR ''h''], encoding = ''utf8''\<rparr>\<close>
proof -
  have drained: "msg_body example_request = Inr [0x68, 0x69]"
    by (simp add: example_request_def)
  have euro: "msg_body euro_request = Inr [0xE2, 0x82, 0xAC]"
    by (simp add: euro_request_def)
  have ill_formed: "msg_body ill_formed_request = Inr [0xFF, 0x68]"
    by (simp add: ill_formed_request_def)
  have scalar: "list_all is_scalar_value [0x20AC]"
    by (simp add: is_scalar_value_def)
  note first = request_round_trip [OF drained, where rel = "''api/edge.ts''"
      and srv = example_server and hs = "[(''content-type'', [''text/plain''])]"
      and cps = "[0x68, 0x69]" and ?'w = unit and ?'p = unit,
      unfolded base64_hi example_payload utf8_text_hi]
  note second = request_round_trip [OF euro, where rel = "''api/edge.ts''"
      and srv = example_server and hs = "[]"
      and cps = "[0x20AC]" and ?'w = unit and ?'p = unit]
  note third = request_round_trip [OF ill_formed, where rel = "''api/edge.ts''"
      and srv = example_server and hs = "[]"
      and cps = "[]" and ?'w = unit and ?'p = unit, unfolded utf8_text_ill_formed]
  have body_euro: "utf8_text [0xE2, 0x82, 0xAC] = text_of_code_points [0x20AC]"
    using second scalar by (simp only: encoding_of_euro simp_thms)
  show ?thesis
    using first second third
    by (simp add: body_euro text_of_euro example_server_def example_request_def)
qed

end
